theory Spec2Isabelle
  imports Main "HOL-Library.AList" "HOL-Library.Char_ord" "HOL-Library.List_Lexorder"
begin

section \<open>Handler nodes and the content accumulation rule\<close>

text \<open>
  Stage A (\<^verbatim>\<open>src/doc/doxygen2docfx.py\<close>) creates one \<^verbatim>\<open>TagHandler\<close> object per XML element.
  \<^verbatim>\<open>TagHandler.create\<close> stores the element's attributes on the object with \<^verbatim>\<open>setattr\<close> and
  adds three more: \<^verbatim>\<open>tag\<close>, \<^verbatim>\<open>parent\<close> and \<^verbatim>\<open>text\<close> (initially \<^verbatim>\<open>None\<close>).
  A node is modelled by a record; \<^verbatim>\<open>hasattr(node, a)\<close> is \<open>a \<in> dom (n_attrs node)\<close>.
  The field \<^verbatim>\<open>is_closed\<close> exists only on \<^verbatim>\<open>computeroutput\<close> nodes, where \<^verbatim>\<open>enter\<close> sets it before
  anything reads it, so a plain boolean models it.

  The \<^verbatim>\<open>parent\<close> pointers of the live nodes form one chain, which is the handler stack of
  \<^verbatim>\<open>DocFxHandler\<close>. A chain is a list of nodes, the node itself first, then its parent, its
  grandparent and so on; the root's parent is \<^verbatim>\<open>None\<close>, the end of the list. A method that
  mutates an ancestor returns the updated chain.

  Strings are \<open>char list\<close>; the model is exact for ASCII text. Element attribute names are
  assumed not to coincide with a method name of the handler classes (Doxygen's schema has
  no such attribute).
\<close>

datatype error = AttributeError | KeyError | AssertionError | TypeError | ValueError | IndexError
  | FileNotFoundError

record node =
  n_tag :: string
  n_attrs :: "string \<rightharpoonup> string"
  n_text :: "string option"
  n_is_closed :: bool

text \<open>
  \<^verbatim>\<open>
  def add_content(self, content):
      if self.text is not None:
          self.text += content
      elif self.parent is not None:
          self.parent.add_content(content)
      else:
          pass
  \<close>
  The empty chain stands for \<^verbatim>\<open>self.parent is None\<close>: nothing is left to delegate to.
\<close>

fun add_content :: "node list \<Rightarrow> string \<Rightarrow> node list" where
  "add_content [] content = []"
| "add_content (self # parents) content =
     (case n_text self of
        Some t \<Rightarrow> self\<lparr>n_text := Some (t @ content)\<rparr> # parents
      | None \<Rightarrow> self # add_content parents content)"

text \<open>
  \<^verbatim>\<open>
  def get_content(self):
      if self.text is not None:
          return self.text
      if self.parent is None:
          return None
      return self.parent.get_content()
  \<close>
\<close>

fun get_content :: "node list \<Rightarrow> string option" where
  "get_content [] = None"
| "get_content (self # parents) =
     (case n_text self of Some t \<Rightarrow> Some t | None \<Rightarrow> get_content parents)"

text \<open>
  \<^verbatim>\<open>ancestor(count)\<close>: the node \<open>count\<close> steps up the chain, \<^verbatim>\<open>None\<close> past the root.
  (The assertion \<^verbatim>\<open>count >= 0\<close> holds for every call in the source: the counts are the
  literals 2 and 3.)
\<close>

fun ancestor :: "node list \<Rightarrow> nat \<Rightarrow> node option" where
  "ancestor [] count = None"
| "ancestor (self # parents) 0 = Some self"
| "ancestor (self # parents) (Suc count) = ancestor parents count"

text \<open>
  \<^verbatim>\<open>
  def has_tag(entity, tag):
      if entity is None or not hasattr(entity, 'tag'):
          return False
      return entity.tag == tag
  \<close>
  Every node has the attribute \<^verbatim>\<open>tag\<close>.
\<close>

definition has_tag :: "node option \<Rightarrow> string \<Rightarrow> bool" where
  "has_tag entity t = (case entity of None \<Rightarrow> False | Some n \<Rightarrow> n_tag n = t)"

text \<open>Reading an attribute of a node that may be \<^verbatim>\<open>None\<close> or may lack the attribute.\<close>

definition getattr :: "node option \<Rightarrow> string \<Rightarrow> error + string" where
  "getattr entity a =
     (case entity of
        None \<Rightarrow> Inl AttributeError
      | Some n \<Rightarrow> (case n_attrs n a of None \<Rightarrow> Inl AttributeError | Some v \<Rightarrow> Inr v))"

definition hasattr :: "node option \<Rightarrow> string \<Rightarrow> bool" where
  "hasattr entity a = (case entity of None \<Rightarrow> False | Some n \<Rightarrow> a \<in> dom (n_attrs n))"

section \<open>Strings and regular expressions\<close>

definition startswith :: "string \<Rightarrow> string \<Rightarrow> bool" where
  "startswith s p = (take (length p) s = p)"

text \<open>
  Python's whitespace (\<^verbatim>\<open>str.strip()\<close>, the class \<^verbatim>\<open>\s\<close>) in the ASCII range: tab, line
  feed, vertical tab, form feed, carriage return, the separators 0x1C to 0x1F and space.
\<close>

definition is_space :: "char \<Rightarrow> bool" where
  "is_space c = (c \<in> set [CHR 0x09, CHR 0x0A, CHR 0x0B, CHR 0x0C, CHR 0x0D,
                            CHR 0x1C, CHR 0x1D, CHR 0x1E, CHR 0x1F, CHR 0x20])"

definition strip_chars :: "(char \<Rightarrow> bool) \<Rightarrow> string \<Rightarrow> string" where
  "strip_chars p s = rev (dropWhile p (rev (dropWhile p s)))"

definition strip :: "string \<Rightarrow> string" where
  "strip s = strip_chars is_space s"

text \<open>The class \<^verbatim>\<open>.\<close>: any character but the line feed.\<close>

definition dot :: "char \<Rightarrow> bool" where
  "dot c = (c \<noteq> CHR 0x0A)"

text \<open>
  The patterns of the source are built from literals, greedy repetitions of a character
  class and alternatives. A pattern is modelled in continuation-passing style, in the order
  Python's backtracking matcher tries the possibilities: a piece of a pattern takes the
  continuation \<open>k\<close> for what follows it and the text at the current position, and answers
  with the first success.

  \<open>lit l\<close> is the literal \<open>l\<close>. \<open>star p\<close> is the greedy repetition \<^verbatim>\<open>p*\<close>: it takes as many
  characters of the class as it can and gives characters back one at a time while the
  continuation fails; the continuation receives the text the repetition matched (for a
  group such as \<^verbatim>\<open>(.*)\<close>) and the rest. \<open>eol\<close> is \<^verbatim>\<open>$\<close> without the multi-line flag: the end of
  the text, or the position before a line feed that ends the text.
\<close>

definition lit :: "string \<Rightarrow> (string \<Rightarrow> 'a option) \<Rightarrow> string \<Rightarrow> 'a option" where
  "lit l k s = (if startswith s l then k (drop (length l) s) else None)"

fun star :: "(char \<Rightarrow> bool) \<Rightarrow> (string \<Rightarrow> string \<Rightarrow> 'a option) \<Rightarrow> string \<Rightarrow> string \<Rightarrow> 'a option" where
  "star p k got [] = k got []"
| "star p k got (c # cs) =
     (if p c then (case star p k (got @ [c]) cs of Some r \<Rightarrow> Some r | None \<Rightarrow> k got (c # cs))
      else k got (c # cs))"

definition eol :: "string \<Rightarrow> bool" where
  "eol s = (s = [] \<or> s = [CHR 0x0A])"

text \<open>
  \<^verbatim>\<open>re.sub(pattern, repl, s)\<close> for a pattern that matches no empty text: scan from the left;
  where the pattern matches, emit the replacement and go on after the match; elsewhere copy
  the character. The matcher \<open>m\<close> answers with the replacement and the text after the match;
  the counter is the number of characters of the last match still to be skipped.
\<close>

fun re_sub :: "(string \<Rightarrow> (string \<times> string) option) \<Rightarrow> nat \<Rightarrow> string \<Rightarrow> string" where
  "re_sub m skip [] = []"
| "re_sub m (Suc skip) (c # cs) = re_sub m skip cs"
| "re_sub m 0 (c # cs) =
     (case m (c # cs) of
        Some (repl, rest) \<Rightarrow> repl @ re_sub m (length cs - length rest) cs
      | None \<Rightarrow> c # re_sub m 0 cs)"

text \<open>\<^verbatim>\<open>re.sub(old, new, s)\<close> for a literal \<open>old\<close>; \<^verbatim>\<open>re.search(l, s)\<close> for a literal \<open>l\<close>.\<close>

definition replace_lit :: "string \<Rightarrow> string \<Rightarrow> string \<Rightarrow> string" where
  "replace_lit old new s = re_sub (lit old (\<lambda>rest. Some (new, rest))) 0 s"

fun search_lit :: "string \<Rightarrow> string \<Rightarrow> bool" where
  "search_lit l [] = startswith [] l"
| "search_lit l (c # cs) = (startswith (c # cs) l \<or> search_lit l cs)"

text \<open>
  \<^verbatim>\<open>
  def translate(doxy):
      translations = {"C++": "cpp", "variable": "field"}
      if doxy in translations:
          return translations[doxy]
      else:
          return doxy
  \<close>
\<close>

definition translate :: "string \<Rightarrow> string" where
  "translate doxy =
     (if doxy = ''C++'' then ''cpp'' else if doxy = ''variable'' then ''field'' else doxy)"

text \<open>
  \<^verbatim>\<open>
  def camel2dashed(name):
      def replacement(match):
          return '-'+match.group(0).lower()
      name = re.sub('[A-Z]+', replacement, name)
      name = re.sub('_-', '_', name)
      return name.strip('-')
  \<close>
\<close>

definition is_upper :: "char \<Rightarrow> bool" where
  "is_upper c = (c \<in> set ''ABCDEFGHIJKLMNOPQRSTUVWXYZ'')"

definition lower :: "char \<Rightarrow> char" where
  "lower c =
     (case map_of (zip ''ABCDEFGHIJKLMNOPQRSTUVWXYZ'' ''abcdefghijklmnopqrstuvwxyz'') c of
        Some d \<Rightarrow> d
      | None \<Rightarrow> c)"

definition upper_run :: "string \<Rightarrow> (string \<times> string) option" where
  "upper_run s =
     star is_upper (\<lambda>got rest. if got = [] then None else Some (CHR ''-'' # map lower got, rest)) [] s"

definition camel2dashed :: "string \<Rightarrow> string" where
  "camel2dashed name =
     (let name = re_sub upper_run 0 name;
          name = replace_lit ''_-'' ''_'' name
      in strip_chars (\<lambda>c. c = CHR ''-'') name)"

text \<open>
  \<^verbatim>\<open>
  def id_sorting(item_id):
      return re.sub(r'^(class|struct|namespace)', '', item_id)
  \<close>
  The anchor \<^verbatim>\<open>^\<close> matches at the start of the text only, so at most one prefix is removed.
\<close>

definition id_sorting :: "string \<Rightarrow> string" where
  "id_sorting item_id =
     (if startswith item_id ''class'' then drop (length ''class'') item_id
      else if startswith item_id ''struct'' then drop (length ''struct'') item_id
      else if startswith item_id ''namespace'' then drop (length ''namespace'') item_id
      else item_id)"

text \<open>
  \<^verbatim>\<open>sorted(set(xs), key=id_sorting)\<close>. Python iterates a set in an order that depends on the
  hashes; \<^verbatim>\<open>sorted\<close> is stable, so that order shows only between uids with equal keys. The
  model iterates in the order \<open>remdups\<close> leaves; strings compare as in Python, character
  by character, a proper prefix first.
\<close>

definition sorted_set :: "string list \<Rightarrow> string list" where
  "sorted_set xs = sort_key id_sorting (remdups xs)"

text \<open>\<^verbatim>\<open>re.sub(".*::", "", parent_name)\<close>, the simple name of \<^verbatim>\<open>Name.characters\<close>.\<close>

definition scope_prefix :: "string \<Rightarrow> (string \<times> string) option" where
  "scope_prefix s = star dot (\<lambda>got rest. lit ''::'' (\<lambda>rest'. Some ([], rest')) rest) [] s"

definition simple_name :: "string \<Rightarrow> string" where
  "simple_name parent_name = re_sub scope_prefix 0 parent_name"

text \<open>
  The paragraph rewrite of \<^verbatim>\<open>Para.characters\<close>:
  \<^verbatim>\<open>re.sub(r"^ *(NOTE|WARNING|TIP|IMPORTANT|CAUTION):", "\n> [!\\1]\n> ", content, count=1)\<close>
\<close>

fun first_marker :: "string list \<Rightarrow> string \<Rightarrow> string option" where
  "first_marker [] s = None"
| "first_marker (m # ms) s =
     (case lit m (lit '':'' (\<lambda>rest. Some ([CHR 0x0A] @ ''> [!'' @ m @ '']'' @ [CHR 0x0A] @ ''> '' @ rest))) s of
        Some r \<Rightarrow> Some r
      | None \<Rightarrow> first_marker ms s)"

definition admonition :: "string \<Rightarrow> string" where
  "admonition content =
     (case star (\<lambda>c. c = CHR '' '')
             (\<lambda>got rest. first_marker [''NOTE'', ''WARNING'', ''TIP'', ''IMPORTANT'', ''CAUTION''] rest)
             [] content of
        Some r \<Rightarrow> r
      | None \<Rightarrow> content)"

text \<open>
  The two patterns of \<^verbatim>\<open>Formula.leave\<close>, each with the result of its \<^verbatim>\<open>re.sub\<close> (the group,
  then the text after the match, where the anchored pattern matches no more):
  \<^verbatim>\<open>r'^\s*\\\[(.*)\\\]\s*$'\<close> and \<^verbatim>\<open>r'^\s*\$(.*)\$\s*'\<close>.
\<close>

definition display_math :: "string \<Rightarrow> string option" where
  "display_math content =
     star is_space (\<lambda>ws1 r1.
       lit [CHR 0x5C, CHR ''[''] (\<lambda>r2.
         star dot (\<lambda>got r3.
           lit [CHR 0x5C, CHR '']''] (\<lambda>r4.
             star is_space (\<lambda>ws2 r5. if eol r5 then Some (got @ r5) else None) [] r4) r3) [] r2) r1)
       [] content"

definition inline_math :: "string \<Rightarrow> string option" where
  "inline_math content =
     star is_space (\<lambda>ws1 r1.
       lit ''$'' (\<lambda>r2.
         star dot (\<lambda>got r3.
           lit ''$'' (\<lambda>r4.
             star is_space (\<lambda>ws2 r5. Some (got @ r5)) [] r4) r3) [] r2) r1)
       [] content"

text \<open>
  \<^verbatim>\<open>
  for pattern, replace in replacements.items():
      if re.match(pattern, content):
          content = re.sub(pattern, replace, content)
          break
  \<close>
\<close>

definition formula_rewrite :: "string \<Rightarrow> string" where
  "formula_rewrite content =
     (case display_math content of
        Some r \<Rightarrow> r
      | None \<Rightarrow> (case inline_math content of Some r \<Rightarrow> r | None \<Rightarrow> content))"

section \<open>Items\<close>

text \<open>
  An item is the \<^verbatim>\<open>OrderedDict\<close> of one documented entity. \<^verbatim>\<open>CompoundDef.enter\<close> and
  \<^verbatim>\<open>MemberDef.enter\<close> create it with the keys \<^verbatim>\<open>uid\<close>, \<^verbatim>\<open>id\<close>, \<^verbatim>\<open>type\<close> and \<^verbatim>\<open>summary\<close>; every
  other key is absent until a handler sets it, which is \<open>None\<close> here. \<^verbatim>\<open>syntax\<close> is a
  dictionary with the one key \<^verbatim>\<open>content\<close>.
\<close>

record source =
  src_path :: string
  src_startLine :: int
  src_endLine :: "int option"

record item =
  it_uid :: string
  it_id :: string
  it_parent :: "string option"
  it_type :: string
  it_summary :: string
  it_langs :: "string list option"
  it_name :: "string option"
  it_fullName :: "string option"
  it_children :: "string list option"
  it_inheritedMembers :: "string list option"
  it_inheritance :: "string list option"
  it_derivedClasses :: "string list option"
  it_syntax :: "string option"
  it_brief :: "string option"
  it_description :: "string option"
  it_source :: "source option"
  it_overrides :: "string list option"

definition new_item :: "string \<Rightarrow> string option \<Rightarrow> string \<Rightarrow> item" where
  "new_item item_id parent_id kind =
     \<lparr>it_uid = item_id, it_id = item_id, it_parent = parent_id, it_type = translate kind,
      it_summary = [], it_langs = None, it_name = None, it_fullName = None,
      it_children = None, it_inheritedMembers = None, it_inheritance = None,
      it_derivedClasses = None, it_syntax = None, it_brief = None, it_description = None,
      it_source = None, it_overrides = None\<rparr>"

text \<open>
  The item mapping \<^verbatim>\<open>items\<close> is a Python dictionary, which keeps its keys in insertion
  order (\<^verbatim>\<open>convert\<close> iterates over it): an association list. \<^verbatim>\<open>items[k]\<close> is \<open>get_item\<close>,
  \<^verbatim>\<open>k in items\<close> is \<open>map_of items k \<noteq> None\<close>, \<^verbatim>\<open>items[k] = v\<close> is \<open>AList.update k v\<close> (in
  place for a known key, at the end for a new one) and an assignment to a key of
  \<^verbatim>\<open>items[k]\<close>, for \<open>k\<close> in the mapping, is \<open>AList.map_entry k\<close>.
\<close>

type_synonym items = "(string \<times> item) list"

definition err_bind :: "error + 'a \<Rightarrow> ('a \<Rightarrow> error + 'b) \<Rightarrow> error + 'b" where
  "err_bind r f = (case r of Inl e \<Rightarrow> Inl e | Inr x \<Rightarrow> f x)"

definition get_item :: "items \<Rightarrow> string \<Rightarrow> error + item" where
  "get_item items k = (case map_of items k of None \<Rightarrow> Inl KeyError | Some it \<Rightarrow> Inr it)"

definition get_key :: "'a option \<Rightarrow> error + 'a" where
  "get_key v = (case v of None \<Rightarrow> Inl KeyError | Some x \<Rightarrow> Inr x)"

section \<open>The tag handlers\<close>

text \<open>
  A handler method takes the chain that starts at its node and the item mapping and
  returns both, updated, or the exception that ends the run. The source is quoted without
  its comments and its messages to the standard error stream.

  \<^verbatim>\<open>
  @tag("name")
  class Name(TagHandler):
      def characters(self, content, items):
          if has_tag(self.ancestor(2), 'listofallmembers'):
              parent_id = self.ancestor(3).id
              member_id = self.parent.refid
              if parent_id in items and (
                      'children' not in items[parent_id]
                      or member_id not in items[parent_id]['children']):
                  inherited = []
                  if 'inheritedMembers' in items[parent_id]:
                      inherited = items[parent_id]['inheritedMembers']
                  inherited += [member_id]
                  inherited = sorted(set(inherited), key=id_sorting)
                  items[parent_id]['inheritedMembers'] = inherited
          elif hasattr(self.ancestor(3), 'id'):
              parent_id = self.ancestor(3).id
              item_id = self.parent.id
              if 'children' not in items[parent_id]:
                  items[parent_id]['children'] = []
              items[parent_id]['children'] += [item_id]
              if item_id in items:
                  items[item_id]['name'] = content
                  items[item_id]['fullName'] = (
                          items[parent_id]['fullName'] + '::' + content)
                  if items[item_id]['type'] == 'function':
                      parent_name = items[parent_id]['name']
                      item_type = 'method'
                      if content == re.sub(".*::", "", parent_name):
                          item_type = 'constructor'
                      items[item_id]['type'] = translate(item_type)
  \<close>
\<close>

definition Name_inherited :: "node list \<Rightarrow> items \<Rightarrow> error + node list \<times> items" where
  "Name_inherited chain items =
     err_bind (getattr (ancestor chain 3) ''id'') (\<lambda>parent_id.
     err_bind (getattr (ancestor chain 1) ''refid'') (\<lambda>member_id.
       case map_of items parent_id of
         None \<Rightarrow> Inr (chain, items)
       | Some p \<Rightarrow>
           if (case it_children p of None \<Rightarrow> True | Some cs \<Rightarrow> member_id \<notin> set cs) then
             let inherited = (case it_inheritedMembers p of None \<Rightarrow> [] | Some ms \<Rightarrow> ms);
                 inherited = inherited @ [member_id];
                 inherited = sorted_set inherited
             in Inr (chain, AList.map_entry parent_id (\<lambda>it. it\<lparr>it_inheritedMembers := Some inherited\<rparr>) items)
           else Inr (chain, items)))"

definition Name_reclassify :: "string \<Rightarrow> string \<Rightarrow> string \<Rightarrow> items \<Rightarrow> error + items" where
  "Name_reclassify parent_id item_id content items =
     err_bind (get_item items item_id) (\<lambda>it.
       if it_type it = ''function'' then
         err_bind (get_item items parent_id) (\<lambda>p.
         err_bind (get_key (it_name p)) (\<lambda>parent_name.
           let item_type = (if content = simple_name parent_name then ''constructor'' else ''method'')
           in Inr (AList.map_entry item_id (\<lambda>it. it\<lparr>it_type := translate item_type\<rparr>) items)))
       else Inr items)"

definition Name_child :: "node list \<Rightarrow> string \<Rightarrow> items \<Rightarrow> error + node list \<times> items" where
  "Name_child chain content items =
     err_bind (getattr (ancestor chain 3) ''id'') (\<lambda>parent_id.
     err_bind (getattr (ancestor chain 1) ''id'') (\<lambda>item_id.
     err_bind (get_item items parent_id) (\<lambda>p.
       let children = (case it_children p of None \<Rightarrow> [] | Some cs \<Rightarrow> cs);
           items = AList.map_entry parent_id (\<lambda>it. it\<lparr>it_children := Some (children @ [item_id])\<rparr>) items
       in if map_of items item_id \<noteq> None then
            let items = AList.map_entry item_id (\<lambda>it. it\<lparr>it_name := Some content\<rparr>) items
            in err_bind (get_item items parent_id) (\<lambda>p.
               err_bind (get_key (it_fullName p)) (\<lambda>parent_fullName.
                 let items = AList.map_entry item_id
                               (\<lambda>it. it\<lparr>it_fullName := Some (parent_fullName @ ''::'' @ content)\<rparr>) items
                 in err_bind (Name_reclassify parent_id item_id content items) (\<lambda>items.
                      Inr (chain, items))))
          else Inr (chain, items))))"

definition Name_characters :: "node list \<Rightarrow> string \<Rightarrow> items \<Rightarrow> error + node list \<times> items" where
  "Name_characters chain content items =
     (if has_tag (ancestor chain 2) ''listofallmembers'' then Name_inherited chain items
      else if hasattr (ancestor chain 3) ''id'' then Name_child chain content items
      else Inr (chain, items))"

text \<open>
  \<^verbatim>\<open>Definition.characters\<close> and \<^verbatim>\<open>ArgsString.characters\<close> have the same body:
  \<^verbatim>\<open>
  item_id = self.parent.id
  if item_id in items:
      if 'syntax' not in items[item_id]:
          items[item_id]['syntax'] = {'content': ''}
      items[item_id]['syntax']['content'] += content.strip()
  \<close>
\<close>

definition Definition_characters :: "node list \<Rightarrow> string \<Rightarrow> items \<Rightarrow> error + node list \<times> items" where
  "Definition_characters chain content items =
     err_bind (getattr (ancestor chain 1) ''id'') (\<lambda>item_id.
       if map_of items item_id \<noteq> None then
         Inr (chain, AList.map_entry item_id
                (\<lambda>it. it\<lparr>it_syntax := Some ((case it_syntax it of None \<Rightarrow> [] | Some c \<Rightarrow> c) @ strip content)\<rparr>)
                items)
       else Inr (chain, items))"

text \<open>\<^verbatim>\<open>ListItem.enter\<close>, \<^verbatim>\<open>Sp.enter\<close> and \<^verbatim>\<open>Para.characters\<close> only add content.\<close>

definition ListItem_enter :: "node list \<Rightarrow> items \<Rightarrow> error + node list \<times> items" where
  "ListItem_enter chain items = Inr (add_content chain ''  * '', items)"

definition Sp_enter :: "node list \<Rightarrow> items \<Rightarrow> error + node list \<times> items" where
  "Sp_enter chain items = Inr (add_content chain '' '', items)"

definition Para_characters :: "node list \<Rightarrow> string \<Rightarrow> items \<Rightarrow> error + node list \<times> items" where
  "Para_characters chain content items = Inr (add_content chain (admonition content), items)"

text \<open>
  \<^verbatim>\<open>
  @tag("compounddef")
  class CompoundDef(TagHandler):
      def enter(self, items):
          if self.kind != 'dir':
              item_id = self.id
              items[item_id] = OrderedDict([
                  ('uid', item_id), ('id', item_id),
                  ('type', translate(self.kind)), ('summary', ''),
              ])
              if hasattr(self, 'language'):
                  language = translate(self.language)
                  items[item_id]['langs'] = [language]
  \<close>
\<close>

definition CompoundDef_enter :: "node list \<Rightarrow> items \<Rightarrow> error + node list \<times> items" where
  "CompoundDef_enter chain items =
     err_bind (getattr (ancestor chain 0) ''kind'') (\<lambda>kind.
       if kind \<noteq> ''dir'' then
         err_bind (getattr (ancestor chain 0) ''id'') (\<lambda>item_id.
           let it = new_item item_id None kind;
               it = (case getattr (ancestor chain 0) ''language'' of
                       Inr language \<Rightarrow> it\<lparr>it_langs := Some [translate language]\<rparr>
                     | Inl e \<Rightarrow> it)
           in Inr (chain, AList.update item_id it items))
       else Inr (chain, items))"

text \<open>
  \<^verbatim>\<open>
  @tag("compoundname")
  class CompountName(TagHandler):
      def characters(self, content, items):
          item_id = self.parent.id
          if item_id in items:
              items[item_id]['name'] = content
              items[item_id]['fullName'] = content
  \<close>
\<close>

definition CompountName_characters :: "node list \<Rightarrow> string \<Rightarrow> items \<Rightarrow> error + node list \<times> items" where
  "CompountName_characters chain content items =
     err_bind (getattr (ancestor chain 1) ''id'') (\<lambda>item_id.
       if map_of items item_id \<noteq> None then
         Inr (chain, AList.map_entry item_id
                (\<lambda>it. it\<lparr>it_name := Some content, it_fullName := Some content\<rparr>) items)
       else Inr (chain, items))"

text \<open>
  \<^verbatim>\<open>
  @tag("basecompoundref")
  class BaseCompoundRef(TagHandler):
      def enter(self, items):
          item_id = self.parent.id
          if hasattr(self, 'refid'):
              if 'inheritance' not in items[item_id]:
                  items[item_id]['inheritance'] = []
              items[item_id]['inheritance'] += [self.refid]
  \<close>
\<close>

definition BaseCompoundRef_enter :: "node list \<Rightarrow> items \<Rightarrow> error + node list \<times> items" where
  "BaseCompoundRef_enter chain items =
     err_bind (getattr (ancestor chain 1) ''id'') (\<lambda>item_id.
       case getattr (ancestor chain 0) ''refid'' of
         Inl e \<Rightarrow> Inr (chain, items)
       | Inr refid \<Rightarrow>
           err_bind (get_item items item_id) (\<lambda>it.
             let inheritance = (case it_inheritance it of None \<Rightarrow> [] | Some bs \<Rightarrow> bs)
             in Inr (chain, AList.map_entry item_id
                       (\<lambda>it. it\<lparr>it_inheritance := Some (inheritance @ [refid])\<rparr>) items)))"

text \<open>
  \<^verbatim>\<open>
  @tag("derivedcompoundref")
  class DerivedCompoundRef(TagHandler):
      def enter(self, items):
          item_id = self.parent.id
          if 'derivedClasses' not in items[item_id]:
              derived = []
          else:
              derived = items[item_id]['derivedClasses']
          derived += [self.refid]
          items[item_id]['derivedClasses'] = sorted(set(derived), key=id_sorting)
  \<close>
\<close>

definition DerivedCompoundRef_enter :: "node list \<Rightarrow> items \<Rightarrow> error + node list \<times> items" where
  "DerivedCompoundRef_enter chain items =
     err_bind (getattr (ancestor chain 1) ''id'') (\<lambda>item_id.
     err_bind (get_item items item_id) (\<lambda>it.
       let derived = (case it_derivedClasses it of None \<Rightarrow> [] | Some ds \<Rightarrow> ds)
       in err_bind (getattr (ancestor chain 0) ''refid'') (\<lambda>refid.
            let derived = derived @ [refid]
            in Inr (chain, AList.map_entry item_id
                      (\<lambda>it. it\<lparr>it_derivedClasses := Some (sorted_set derived)\<rparr>) items))))"

text \<open>
  \<^verbatim>\<open>
  @tag("memberdef")
  class MemberDef(TagHandler):
      def enter(self, items):
          if self.kind not in ('friend', 'type', 'typedef', 'variable'):
              parent_id = self.ancestor(2).id
              member_id = self.id
              items[member_id] = OrderedDict([
                  ('uid', member_id), ('id', member_id), ('parent', parent_id),
                  ('type', translate(self.kind)), ('summary', ''),
              ])
  \<close>
\<close>

definition MemberDef_enter :: "node list \<Rightarrow> items \<Rightarrow> error + node list \<times> items" where
  "MemberDef_enter chain items =
     err_bind (getattr (ancestor chain 0) ''kind'') (\<lambda>kind.
       if kind \<notin> set [''friend'', ''type'', ''typedef'', ''variable''] then
         err_bind (getattr (ancestor chain 2) ''id'') (\<lambda>parent_id.
         err_bind (getattr (ancestor chain 0) ''id'') (\<lambda>member_id.
           Inr (chain, AList.update member_id (new_item member_id (Some parent_id) kind) items)))
       else Inr (chain, items))"

text \<open>
  \<^verbatim>\<open>
  @tag("computeroutput")
  class ComputerOutput(TagHandler):
      def enter(self, items):
          self.is_closed = False
          self.add_content("`")

      def leave(self, items):
          if not self.is_closed:
              self.add_content("`")
  \<close>
\<close>

definition ComputerOutput_enter :: "node list \<Rightarrow> items \<Rightarrow> error + node list \<times> items" where
  "ComputerOutput_enter chain items =
     (case chain of
        [] \<Rightarrow> Inl AttributeError
      | self # parents \<Rightarrow> Inr (add_content (self\<lparr>n_is_closed := False\<rparr> # parents) ''`'', items))"

definition ComputerOutput_leave :: "node list \<Rightarrow> items \<Rightarrow> error + node list \<times> items" where
  "ComputerOutput_leave chain items =
     (case chain of
        [] \<Rightarrow> Inl AttributeError
      | self # parents \<Rightarrow>
          if \<not> n_is_closed self then Inr (add_content chain ''`'', items) else Inr (chain, items))"

text \<open>
  \<^verbatim>\<open>
  @tag("programlisting")
  class ProgramListing(TagHandler):
      def enter(self, items):
          self.text = ''

      def get_filename(self):
          if hasattr(self, 'filename'):
              return self.filename
          return ""

      def leave(self, items):
          INFERRED_CPP = " {c++}\n"
          if self.text.startswith(INFERRED_CPP):
              self.text = self.text[len(INFERRED_CPP):]
              self.filename = "cpp"
          if self.get_filename() == "c++":
              self.filename = "cpp"
          self.parent.add_content("\n```" + self.get_filename() + "\n" + self.text + "```\n")
          self.text = None
  \<close>
  \<open>own_text\<close> is the \<^verbatim>\<open>enter\<close> hook of every handler that owns a buffer.
\<close>

definition own_text :: "node list \<Rightarrow> items \<Rightarrow> error + node list \<times> items" where
  "own_text chain items =
     (case chain of
        [] \<Rightarrow> Inl AttributeError
      | self # parents \<Rightarrow> Inr (self\<lparr>n_text := Some []\<rparr> # parents, items))"

definition get_filename :: "node \<Rightarrow> string" where
  "get_filename self = (case n_attrs self ''filename'' of Some f \<Rightarrow> f | None \<Rightarrow> [])"

definition INFERRED_CPP :: string where
  "INFERRED_CPP = '' {c++}\<newline>''"

definition ProgramListing_leave :: "node list \<Rightarrow> items \<Rightarrow> error + node list \<times> items" where
  "ProgramListing_leave chain items =
     (case chain of
        [] \<Rightarrow> Inl AttributeError
      | self # parents \<Rightarrow>
          (case n_text self of
             None \<Rightarrow> Inl AttributeError
           | Some text \<Rightarrow>
               let (text, self) =
                     (if startswith text INFERRED_CPP
                      then (drop (length INFERRED_CPP) text,
                            self\<lparr>n_attrs := (n_attrs self)(''filename'' \<mapsto> ''cpp'')\<rparr>)
                      else (text, self));
                   self = (if get_filename self = ''c++''
                           then self\<lparr>n_attrs := (n_attrs self)(''filename'' \<mapsto> ''cpp'')\<rparr>
                           else self)
               in (case parents of
                     [] \<Rightarrow> Inl AttributeError
                   | parent # rest \<Rightarrow>
                       Inr (self\<lparr>n_text := None\<rparr> #
                            add_content parents
                              (''\<newline>```'' @ get_filename self @ ''\<newline>'' @ text @ ''```\<newline>''),
                            items))))"

text \<open>
  \<^verbatim>\<open>
  @tag("briefdescription")
  class BriefDescription(TagHandler):
      def enter(self, items):
          self.text = ''

      def leave(self, items):
          item_id = self.parent.id
          if item_id in items:
              items[item_id]['brief'] = self.text.strip()
              items[item_id]['summary'] = self.text.strip()
          self.text = None
  \<close>
\<close>

definition BriefDescription_leave :: "node list \<Rightarrow> items \<Rightarrow> error + node list \<times> items" where
  "BriefDescription_leave chain items =
     (case chain of
        [] \<Rightarrow> Inl AttributeError
      | self # parents \<Rightarrow>
          err_bind (getattr (ancestor chain 1) ''id'') (\<lambda>item_id.
            if map_of items item_id \<noteq> None then
              (case n_text self of
                 None \<Rightarrow> Inl AttributeError
               | Some text \<Rightarrow>
                   Inr (self\<lparr>n_text := None\<rparr> # parents,
                        AList.map_entry item_id
                          (\<lambda>it. it\<lparr>it_brief := Some (strip text), it_summary := strip text\<rparr>) items))
            else Inr (self\<lparr>n_text := None\<rparr> # parents, items)))"

text \<open>
  \<^verbatim>\<open>
  @tag("detaileddescription")
  class DetailedDescription(TagHandler):
      def enter(self, items):
          self.text = ''

      def leave(self, items):
          item_id = self.parent.id
          if item_id in items:
              items[item_id]['description'] = self.text.strip()
              items[item_id]['summary'] = (
                      items[item_id]['summary'] + "\n\n"
                      + self.text.strip()).strip()
          self.text = None
  \<close>
\<close>

definition DetailedDescription_leave :: "node list \<Rightarrow> items \<Rightarrow> error + node list \<times> items" where
  "DetailedDescription_leave chain items =
     (case chain of
        [] \<Rightarrow> Inl AttributeError
      | self # parents \<Rightarrow>
          err_bind (getattr (ancestor chain 1) ''id'') (\<lambda>item_id.
            if map_of items item_id \<noteq> None then
              (case n_text self of
                 None \<Rightarrow> Inl AttributeError
               | Some text \<Rightarrow>
                   Inr (self\<lparr>n_text := None\<rparr> # parents,
                        AList.map_entry item_id
                          (\<lambda>it. it\<lparr>it_description := Some (strip text),
                                   it_summary := strip (it_summary it @ ''\<newline>\<newline>'' @ strip text)\<rparr>)
                          items))
            else Inr (self\<lparr>n_text := None\<rparr> # parents, items)))"

text \<open>
  \<^verbatim>\<open>
  @tag("ref")
  class Ref(TagHandler):
      def enter(self, items):
          if has_tag(self.parent, 'computeroutput'):
              node = self.parent
              while node is not None and node.text is None:
                  node = node.parent
              if node is not None:
                  node.text = node.text[:-1] + '[' + node.text[-1:]
          else:
              self.add_content('[')

      def leave(self, items):
          if has_tag(self.parent, 'computeroutput'):
              self.add_content('`')
              self.parent.is_closed = True
          self.add_content('](xref:' + self.refid + ')')
  \<close>
  \<open>insert_bracket\<close> is the loop of \<^verbatim>\<open>enter\<close> with the assignment after it, on the chain
  that starts at \<^verbatim>\<open>self.parent\<close>.
\<close>

fun insert_bracket :: "node list \<Rightarrow> node list" where
  "insert_bracket [] = []"
| "insert_bracket (node # parents) =
     (case n_text node of
        None \<Rightarrow> node # insert_bracket parents
      | Some t \<Rightarrow>
          node\<lparr>n_text := Some (butlast t @ ''['' @ (if t = [] then [] else [last t]))\<rparr> # parents)"

definition Ref_enter :: "node list \<Rightarrow> items \<Rightarrow> error + node list \<times> items" where
  "Ref_enter chain items =
     (case chain of
        [] \<Rightarrow> Inl AttributeError
      | self # parents \<Rightarrow>
          if has_tag (ancestor chain 1) ''computeroutput''
          then Inr (self # insert_bracket parents, items)
          else Inr (add_content chain ''['', items))"

definition close_parent :: "node list \<Rightarrow> node list" where
  "close_parent chain =
     (case chain of
        self # parent # rest \<Rightarrow> self # parent\<lparr>n_is_closed := True\<rparr> # rest
      | _ \<Rightarrow> chain)"

definition Ref_leave :: "node list \<Rightarrow> items \<Rightarrow> error + node list \<times> items" where
  "Ref_leave chain items =
     (let chain = (if has_tag (ancestor chain 1) ''computeroutput''
                   then close_parent (add_content chain ''`'')
                   else chain)
      in err_bind (getattr (ancestor chain 0) ''refid'') (\<lambda>refid.
           Inr (add_content chain (''](xref:'' @ refid @ '')''), items)))"

text \<open>
  \<^verbatim>\<open>int(s)\<close> for the line numbers of \<^verbatim>\<open>Location.enter\<close>: surrounding whitespace, an optional
  sign, decimal digits with single underscores between them.
\<close>

definition digit_of :: "char \<Rightarrow> int option" where
  "digit_of c = map_of (zip ''0123456789'' [0, 1, 2, 3, 4, 5, 6, 7, 8, 9]) c"

fun digits_value :: "int \<Rightarrow> bool \<Rightarrow> string \<Rightarrow> int option" where
  "digits_value acc after_digit [] = (if after_digit then Some acc else None)"
| "digits_value acc after_digit (c # cs) =
     (if c = CHR ''_'' then (if after_digit then digits_value acc False cs else None)
      else (case digit_of c of
              None \<Rightarrow> None
            | Some d \<Rightarrow> digits_value (10 * acc + d) True cs))"

definition py_int :: "string \<Rightarrow> error + int" where
  "py_int s =
     (let t = strip s;
          (sign, digits) =
            (case t of
               [] \<Rightarrow> (1, [])
             | c # cs \<Rightarrow> if c = CHR ''-'' then (- 1, cs) else if c = CHR ''+'' then (1, cs) else (1, t))
      in case digits_value 0 False digits of
           None \<Rightarrow> Inl ValueError
         | Some v \<Rightarrow> Inr (sign * v))"

text \<open>
  \<^verbatim>\<open>
  @tag("location")
  class Location(TagHandler):
      def enter(self, items):
          item_id = self.parent.id
          if item_id in items and hasattr(self, 'bodyfile'):
              source = OrderedDict()
              source['path'] = self.bodyfile
              source['startLine'] = int(self.bodystart)
              if hasattr(self, 'bodyend') and self.bodyend != '-1':
                  source['endLine'] = int(self.bodyend)
              items[item_id]['source'] = source
  \<close>
\<close>

definition Location_enter :: "node list \<Rightarrow> items \<Rightarrow> error + node list \<times> items" where
  "Location_enter chain items =
     err_bind (getattr (ancestor chain 1) ''id'') (\<lambda>item_id.
       case getattr (ancestor chain 0) ''bodyfile'' of
         Inl e \<Rightarrow> Inr (chain, items)
       | Inr bodyfile \<Rightarrow>
           if map_of items item_id \<noteq> None then
             err_bind (getattr (ancestor chain 0) ''bodystart'') (\<lambda>bodystart.
             err_bind (py_int bodystart) (\<lambda>startLine.
             err_bind (case getattr (ancestor chain 0) ''bodyend'' of
                         Inl e \<Rightarrow> Inr None
                       | Inr bodyend \<Rightarrow>
                           if bodyend \<noteq> ''-1'' then err_bind (py_int bodyend) (\<lambda>l. Inr (Some l))
                           else Inr None) (\<lambda>endLine.
               Inr (chain, AList.map_entry item_id
                      (\<lambda>it. it\<lparr>it_source := Some \<lparr>src_path = bodyfile, src_startLine = startLine,
                                                  src_endLine = endLine\<rparr>\<rparr>) items))))
           else Inr (chain, items))"

text \<open>
  \<^verbatim>\<open>
  @tag("formula")
  class Formula(TagHandler):
      def enter(self, items):
          self.text = ""

      def leave(self, items):
          content = self.get_content()
          replacements = {
              r'^\s*\\\[(.*)\\\]\s*$': '\\1',
              r'^\s*\$(.*)\$\s*': '\\1'
          }
          for pattern, replace in replacements.items():
              if re.match(pattern, content):
                  content = re.sub(pattern, replace, content)
                  break
          self.parent.add_content("\n```math\n" + content + "\n```\n")
          print(content, file=sys.stderr)
          self.text = None
  \<close>
\<close>

definition Formula_leave :: "node list \<Rightarrow> items \<Rightarrow> error + node list \<times> items" where
  "Formula_leave chain items =
     (case chain of
        [] \<Rightarrow> Inl AttributeError
      | self # parents \<Rightarrow>
          (case get_content chain of
             None \<Rightarrow> Inl TypeError
           | Some content \<Rightarrow>
               let content = formula_rewrite content
               in (case parents of
                     [] \<Rightarrow> Inl AttributeError
                   | parent # rest \<Rightarrow>
                       Inr (self\<lparr>n_text := None\<rparr> #
                            add_content parents (''\<newline>```math\<newline>'' @ content @ ''\<newline>```\<newline>''),
                            items))))"

text \<open>
  \<^verbatim>\<open>
  @tag("reimplementedby")
  class ReimplementedBy(TagHandler):
      def enter(self, items):
          item_id = self.parent.id
          if item_id in items:
              if 'overrides' not in items[item_id]:
                  items[item_id]['overrides'] = []
              items[item_id]['overrides'] += [self.refid]
  \<close>
\<close>

definition ReimplementedBy_enter :: "node list \<Rightarrow> items \<Rightarrow> error + node list \<times> items" where
  "ReimplementedBy_enter chain items =
     err_bind (getattr (ancestor chain 1) ''id'') (\<lambda>item_id.
       if map_of items item_id \<noteq> None then
         err_bind (getattr (ancestor chain 0) ''refid'') (\<lambda>refid.
           Inr (chain, AList.map_entry item_id
                  (\<lambda>it. it\<lparr>it_overrides := Some ((case it_overrides it of None \<Rightarrow> [] | Some os \<Rightarrow> os) @ [refid])\<rparr>)
                  items))
       else Inr (chain, items))"

section \<open>The dispatcher\<close>

text \<open>
  \<^verbatim>\<open>TagHandler.handlers\<close> maps a tag to its class; a tag without a class gets the base class,
  whose \<^verbatim>\<open>enter\<close> and \<^verbatim>\<open>leave\<close> do nothing and whose \<^verbatim>\<open>characters\<close> adds the content.
\<close>

definition enter :: "node list \<Rightarrow> items \<Rightarrow> error + node list \<times> items" where
  "enter chain items =
     (let t = (case chain of [] \<Rightarrow> [] | self # parents \<Rightarrow> n_tag self) in
      if t = ''listitem'' then ListItem_enter chain items
      else if t = ''compounddef'' then CompoundDef_enter chain items
      else if t = ''basecompoundref'' then BaseCompoundRef_enter chain items
      else if t = ''derivedcompoundref'' then DerivedCompoundRef_enter chain items
      else if t = ''memberdef'' then MemberDef_enter chain items
      else if t = ''computeroutput'' then ComputerOutput_enter chain items
      else if t = ''programlisting'' then own_text chain items
      else if t = ''sp'' then Sp_enter chain items
      else if t = ''briefdescription'' then own_text chain items
      else if t = ''detaileddescription'' then own_text chain items
      else if t = ''ref'' then Ref_enter chain items
      else if t = ''location'' then Location_enter chain items
      else if t = ''formula'' then own_text chain items
      else if t = ''reimplementedby'' then ReimplementedBy_enter chain items
      else Inr (chain, items))"

definition leave :: "node list \<Rightarrow> items \<Rightarrow> error + node list \<times> items" where
  "leave chain items =
     (let t = (case chain of [] \<Rightarrow> [] | self # parents \<Rightarrow> n_tag self) in
      if t = ''computeroutput'' then ComputerOutput_leave chain items
      else if t = ''programlisting'' then ProgramListing_leave chain items
      else if t = ''briefdescription'' then BriefDescription_leave chain items
      else if t = ''detaileddescription'' then DetailedDescription_leave chain items
      else if t = ''ref'' then Ref_leave chain items
      else if t = ''formula'' then Formula_leave chain items
      else Inr (chain, items))"

definition characters :: "node list \<Rightarrow> string \<Rightarrow> items \<Rightarrow> error + node list \<times> items" where
  "characters chain content items =
     (let t = (case chain of [] \<Rightarrow> [] | self # parents \<Rightarrow> n_tag self) in
      if t = ''name'' then Name_characters chain content items
      else if t = ''definition'' then Definition_characters chain content items
      else if t = ''argsstring'' then Definition_characters chain content items
      else if t = ''para'' then Para_characters chain content items
      else if t = ''compoundname'' then CompountName_characters chain content items
      else Inr (add_content chain content, items))"

text \<open>
  \<^verbatim>\<open>
  def create(tag, attrs, parent):
      attrs = dict(attrs.items())
      assert("text" not in attrs)
      assert("tag" not in attrs)
      assert("parent" not in attrs)
      attrs["tag"] = tag
      attrs["parent"] = parent
      attrs["text"] = None
      ...
  \<close>
  The parent is the rest of the chain.
\<close>

definition create :: "string \<Rightarrow> (string \<times> string) list \<Rightarrow> error + node" where
  "create t attrs =
     (if map_of attrs ''text'' \<noteq> None \<or> map_of attrs ''tag'' \<noteq> None \<or> map_of attrs ''parent'' \<noteq> None
      then Inl AssertionError
      else Inr \<lparr>n_tag = t, n_attrs = map_of attrs, n_text = None, n_is_closed = False\<rparr>)"

text \<open>
  The SAX events of one input file and the state of \<^verbatim>\<open>DocFxHandler\<close>: the stack, its top
  first, and the item mapping.
  \<^verbatim>\<open>
  def startElement(self, tag, attributes):
      parent = self.stack[-1] if len(self.stack) else None
      self.stack += [TagHandler.create(tag, attributes, parent)]
      self.stack[-1].enter(items=self.items)

  def endElement(self, tag):
      self.stack[-1].leave(items=self.items)
      self.stack = self.stack[:-1]

  def characters(self, content):
      self.stack[-1].characters(content, self.items)
  \<close>
\<close>

datatype event = StartElement string "(string \<times> string) list" | EndElement string | Characters string

definition startElement :: "string \<Rightarrow> (string \<times> string) list \<Rightarrow> node list \<times> items \<Rightarrow> error + node list \<times> items" where
  "startElement t attributes st =
     err_bind (create t attributes) (\<lambda>n. enter (n # fst st) (snd st))"

definition endElement :: "string \<Rightarrow> node list \<times> items \<Rightarrow> error + node list \<times> items" where
  "endElement t st =
     (case fst st of
        [] \<Rightarrow> Inl IndexError
      | self # parents \<Rightarrow> err_bind (leave (fst st) (snd st)) (\<lambda>(chain, items). Inr (tl chain, items)))"

definition handle_characters :: "string \<Rightarrow> node list \<times> items \<Rightarrow> error + node list \<times> items" where
  "handle_characters content st =
     (case fst st of
        [] \<Rightarrow> Inl IndexError
      | self # parents \<Rightarrow> characters (fst st) content (snd st))"

fun handle_event :: "event \<Rightarrow> node list \<times> items \<Rightarrow> error + node list \<times> items" where
  "handle_event (StartElement t attributes) st = startElement t attributes st"
| "handle_event (EndElement t) st = endElement t st"
| "handle_event (Characters content) st = handle_characters content st"

text \<open>\<^verbatim>\<open>converter.parse(path)\<close> on a fresh \<^verbatim>\<open>DocFxHandler\<close>: the events in document order.\<close>

fun parse_events :: "event list \<Rightarrow> node list \<times> items \<Rightarrow> error + node list \<times> items" where
  "parse_events [] st = Inr st"
| "parse_events (e # es) st = err_bind (handle_event e st) (parse_events es)"

definition parse :: "event list \<Rightarrow> error + node list \<times> items" where
  "parse es = parse_events es ([], [])"

section \<open>Path translation and the output writer\<close>

text \<open>
  \<^verbatim>\<open>
  def translate_path(self, path):
      path = re.sub(r"doxygen/xml/(struct|class|namespace)(.*)\.xml",
                    "\\2.yml", path)
      path = re.sub(r"1_1", "", path)
      if re.match(r"(qiotoolkit)_", path):
          path = re.sub("qiotoolkit_", "", path)
      path = camel2dashed(path)
      # path = re.sub("_", "/", path, 1)
      path = re.sub('_', '/', path)
      return 'api/' + path
  \<close>
\<close>

definition kind_prefix :: "(string \<Rightarrow> 'a option) \<Rightarrow> string \<Rightarrow> 'a option" where
  "kind_prefix k s =
     (case lit ''struct'' k s of
        Some r \<Rightarrow> Some r
      | None \<Rightarrow> (case lit ''class'' k s of Some r \<Rightarrow> Some r | None \<Rightarrow> lit ''namespace'' k s))"

definition doxygen_xml :: "string \<Rightarrow> (string \<times> string) option" where
  "doxygen_xml s =
     lit ''doxygen/xml/''
       (kind_prefix
          (star dot (\<lambda>got rest. lit ''.xml'' (\<lambda>rest'. Some (got @ ''.yml'', rest')) rest) [])) s"

definition translate_path :: "string \<Rightarrow> string" where
  "translate_path path =
     (let path = re_sub doxygen_xml 0 path;
          path = replace_lit ''1_1'' [] path;
          path = (if startswith path ''qiotoolkit_'' then replace_lit ''qiotoolkit_'' [] path else path);
          path = camel2dashed path;
          path = replace_lit ''_'' ''/'' path
      in ''api/'' @ path)"

text \<open>\<^verbatim>\<open>os.path.join(a, b)\<close> of \<^verbatim>\<open>posixpath\<close>.\<close>

definition path_join :: "string \<Rightarrow> string \<Rightarrow> string" where
  "path_join a b =
     (if startswith b ''/'' then b
      else if a = [] \<or> last a = CHR ''/'' then a @ b
      else a @ ''/'' @ b)"

text \<open>
  \<^verbatim>\<open>
  def convert(path):
      converter = xml.sax.make_parser()
      doc_fx_handler = DocFxHandler()
      converter.setContentHandler(doc_fx_handler)
      converter.parse(path)
      if re.search('/namespacematcher', path):
          namespace = doc_fx_handler.items;
          namespace_name = None
          for key, items in namespace.items():
              if items['type'] == 'namespace':
                  namespace_name = key[len("namespace"):]
              elif items['type'] == 'method':
                  function_name = items["name"]
                  if function_name == '&': continue
                  filename = os.path.join('api', namespace_name, camel2dashed(function_name) + '.yml')
                  doc_fx_handler.items = {items['uid']: items}
                  os.makedirs(os.path.dirname(filename), exist_ok=True)
                  with open(filename, 'w') as fh:
                      fh.write(doc_fx_handler.getYaml())
      elif re.search('/namespace', path):
          pass
      else:
          filename = doc_fx_handler.translate_path(path)
          if (filename == 'api/std/optional.yml' or
                  filename =='api/ValueSetter/3_01std_optional_3_01T_01_4_01_4.yml'):
              pass
          else:
              os.makedirs(os.path.dirname(filename), exist_ok=True)
              with open(filename, 'w') as fh:
                  fh.write(doc_fx_handler.getYaml())
  \<close>
  The content of the input file is the list of its SAX events. The result is the list of
  the files written, in order, each with the items that \<^verbatim>\<open>getYaml\<close> serialises; writing is
  assumed to succeed. An exception is the result of the whole call, also when files were
  written before it.
\<close>

fun split_namespace :: "(string \<times> item) list \<Rightarrow> string option \<Rightarrow> error + (string \<times> item list) list" where
  "split_namespace [] namespace_name = Inr []"
| "split_namespace ((key, it) # rest) namespace_name =
     (if it_type it = ''namespace'' then split_namespace rest (Some (drop (length ''namespace'') key))
      else if it_type it = ''method'' then
        err_bind (get_key (it_name it)) (\<lambda>function_name.
          if function_name = ''&'' then split_namespace rest namespace_name
          else (case namespace_name of
                  None \<Rightarrow> Inl TypeError
                | Some ns \<Rightarrow>
                    let filename = path_join (path_join ''api'' ns) (camel2dashed function_name @ ''.yml'')
                    in err_bind (split_namespace rest namespace_name) (\<lambda>files.
                         Inr ((filename, [it]) # files))))
      else split_namespace rest namespace_name)"

definition convert :: "string \<Rightarrow> event list \<Rightarrow> error + (string \<times> item list) list" where
  "convert path es =
     err_bind (parse es) (\<lambda>(stack, items).
       if search_lit ''/namespacematcher'' path then split_namespace items None
       else if search_lit ''/namespace'' path then Inr []
       else
         let filename = translate_path path
         in if filename = ''api/std/optional.yml'' \<or>
               filename = ''api/ValueSetter/3_01std_optional_3_01T_01_4_01_4.yml''
            then Inr []
            else Inr [(filename, map snd items)])"

section \<open>Stage B: the cross-reference linker\<close>

text \<open>
  \<^verbatim>\<open>src/doc/generate_xrefmap.py\<close> reads the records Stage A wrote. A file holds a YAML
  document: a record with its \<^verbatim>\<open>items\<close> and, once rewritten, its \<^verbatim>\<open>references\<close>, or the
  reference map that \<^verbatim>\<open>generate_xrefmap\<close> writes to \<^verbatim>\<open>xrefmap.yml\<close>, which has no \<^verbatim>\<open>items\<close>.
  The file system is a map from paths to documents.
\<close>

record reference =
  ref_uid :: string
  ref_name :: string
  ref_href :: string
  ref_fullName :: string

datatype document = Record "item list" "reference list option" | RefMap "reference list"

type_synonym files = "string \<rightharpoonup> document"

text \<open>\<^verbatim>\<open>re.match(r"(^|.*/)toc\.yml$", path)\<close>\<close>

definition toc_end :: "string \<Rightarrow> unit option" where
  "toc_end s = lit ''toc.yml'' (\<lambda>rest. if eol rest then Some () else None) s"

definition is_toc :: "string \<Rightarrow> bool" where
  "is_toc path =
     (case toc_end path of
        Some u \<Rightarrow> True
      | None \<Rightarrow> star dot (\<lambda>got rest. lit ''/'' toc_end rest) [] path \<noteq> None)"

text \<open>\<^verbatim>\<open>'/' + re.sub('.yml', '.html', path)\<close>: the dot of the pattern is the class \<^verbatim>\<open>.\<close>\<close>

definition any_yml :: "string \<Rightarrow> (string \<times> string) option" where
  "any_yml s =
     (case s of
        [] \<Rightarrow> None
      | c # cs \<Rightarrow> if dot c then lit ''yml'' (\<lambda>rest. Some (''.html'', rest)) cs else None)"

definition href :: "string \<Rightarrow> string" where
  "href path = ''/'' @ re_sub any_yml 0 path"

text \<open>
  \<^verbatim>\<open>
  for item in content['items']:
      ref = OrderedDict([
          ('uid', item['uid']),
          ('name', item['name']),
          ('href', '/' + re.sub('.yml', '.html', path)),
          ('fullName', item['fullName'])
      ])
      xreflist += [ref]
      xrefmap[item['uid']] = ref
  \<close>
\<close>

type_synonym xrefmap = "string \<rightharpoonup> reference"

fun collect_items :: "string \<Rightarrow> item list \<Rightarrow> reference list \<times> xrefmap \<Rightarrow> error + reference list \<times> xrefmap" where
  "collect_items path [] acc = Inr acc"
| "collect_items path (it # its) (xreflist, xrefmap) =
     err_bind (get_key (it_name it)) (\<lambda>name.
     err_bind (get_key (it_fullName it)) (\<lambda>fullName.
       let r = \<lparr>ref_uid = it_uid it, ref_name = name, ref_href = href path, ref_fullName = fullName\<rparr>
       in collect_items path its (xreflist @ [r], xrefmap(it_uid it \<mapsto> r))))"

definition load_items :: "files \<Rightarrow> string \<Rightarrow> error + item list" where
  "load_items fs path =
     (case fs path of
        None \<Rightarrow> Inl FileNotFoundError
      | Some (Record its refs) \<Rightarrow> Inr its
      | Some (RefMap refs) \<Rightarrow> Inl KeyError)"

fun collect :: "files \<Rightarrow> string list \<Rightarrow> reference list \<times> xrefmap \<Rightarrow> error + reference list \<times> xrefmap" where
  "collect fs [] acc = Inr acc"
| "collect fs (path # paths) acc =
     (if is_toc path then collect fs paths acc
      else err_bind (load_items fs path) (\<lambda>its.
           err_bind (collect_items path its acc) (collect fs paths)))"

text \<open>
  The second loop, for one item. \<^verbatim>\<open>referenced\<close> is a Python set; the model keeps its
  elements in a list without repetitions, in the order of their first insertion (the order
  in which Python iterates the set depends on the hashes).
  \<^verbatim>\<open>
  if 'parent' in item:
      if item['parent'] in xrefmap:
          referenced.add(item['parent'])
      else:
          del item['parent']
  if 'children' in item:
      item['children'] = [
              c for c in item['children'] if c in xrefmap]
      for child in item['children']:
          referenced.add(child)
  if 'inheritedMembers' in item:
      item['inheritedMembers'] = [
              c for c in item['inheritedMembers'] if c in xrefmap]
      for child in item['inheritedMembers']:
          referenced.add(child)
  \<close>
\<close>

definition set_add :: "string list \<Rightarrow> string \<Rightarrow> string list" where
  "set_add referenced u = (if u \<in> set referenced then referenced else referenced @ [u])"

definition rewrite_item :: "xrefmap \<Rightarrow> item \<Rightarrow> string list \<Rightarrow> item \<times> string list" where
  "rewrite_item xrefmap it referenced =
     (let (it, referenced) =
            (case it_parent it of
               None \<Rightarrow> (it, referenced)
             | Some p \<Rightarrow>
                 if xrefmap p \<noteq> None then (it, set_add referenced p)
                 else (it\<lparr>it_parent := None\<rparr>, referenced));
          (it, referenced) =
            (case it_children it of
               None \<Rightarrow> (it, referenced)
             | Some cs \<Rightarrow>
                 let cs = filter (\<lambda>c. xrefmap c \<noteq> None) cs
                 in (it\<lparr>it_children := Some cs\<rparr>, foldl set_add referenced cs));
          (it, referenced) =
            (case it_inheritedMembers it of
               None \<Rightarrow> (it, referenced)
             | Some ms \<Rightarrow>
                 let ms = filter (\<lambda>c. xrefmap c \<noteq> None) ms
                 in (it\<lparr>it_inheritedMembers := Some ms\<rparr>, foldl set_add referenced ms))
      in (it, referenced))"

fun rewrite_items :: "xrefmap \<Rightarrow> item list \<Rightarrow> string list \<Rightarrow> item list \<times> string list" where
  "rewrite_items xrefmap [] referenced = ([], referenced)"
| "rewrite_items xrefmap (it # its) referenced =
     (let (it, referenced) = rewrite_item xrefmap it referenced;
          (its, referenced) = rewrite_items xrefmap its referenced
      in (it # its, referenced))"

text \<open>
  \<^verbatim>\<open>
  content['references'] = []
  referenced = set()
  for item in content['items']: ...
  for reference in referenced:
      content['references'] += [xrefmap[reference]]
  \<close>
  Every uid in \<^verbatim>\<open>referenced\<close> was found in \<^verbatim>\<open>xrefmap\<close>, so \<^verbatim>\<open>xrefmap[reference]\<close> raises nothing;
  \<open>List.map_filter\<close> looks each one up.
\<close>

definition rewrite_record :: "xrefmap \<Rightarrow> item list \<Rightarrow> document" where
  "rewrite_record xrefmap its =
     (let (its, referenced) = rewrite_items xrefmap its []
      in Record its (Some (List.map_filter xrefmap referenced)))"

fun rewrite :: "xrefmap \<Rightarrow> string list \<Rightarrow> files \<Rightarrow> error + files" where
  "rewrite xrefmap [] fs = Inr fs"
| "rewrite xrefmap (path # paths) fs =
     (if is_toc path then rewrite xrefmap paths fs
      else err_bind (load_items fs path) (\<lambda>its.
             rewrite xrefmap paths (fs(path \<mapsto> rewrite_record xrefmap its))))"

text \<open>
  \<^verbatim>\<open>generate_xrefmap(paths)\<close>: the first loop, the write of \<^verbatim>\<open>xrefmap.yml\<close>, the second loop.
\<close>

definition generate_xrefmap :: "string list \<Rightarrow> files \<Rightarrow> error + files" where
  "generate_xrefmap paths fs =
     err_bind (collect fs paths ([], Map.empty)) (\<lambda>(xreflist, xrefmap).
       rewrite xrefmap paths (fs(''xrefmap.yml'' \<mapsto> RefMap xreflist)))"

section \<open>Properties of the item mapping\<close>

text \<open>
  A relationship list is sorted by the normalized-id key and has no duplicates, or is absent;
  the two lists that Stage A keeps in that form; the mapping in which every item has them
  so.
\<close>

definition sorted_unique :: "string list option \<Rightarrow> bool" where
  "sorted_unique l = (case l of None \<Rightarrow> True | Some xs \<Rightarrow> sorted (map id_sorting xs) \<and> distinct xs)"

definition item_ok :: "item \<Rightarrow> bool" where
  "item_ok it = (sorted_unique (it_derivedClasses it) \<and> sorted_unique (it_inheritedMembers it))"

definition items_ok :: "items \<Rightarrow> bool" where
  "items_ok items = list_all (\<lambda>(k, it). item_ok it) items"

text \<open>
  The rewrite pass as the specification words it, for one item: the uids an item declares
  in \<^verbatim>\<open>parent\<close>, \<^verbatim>\<open>children\<close> and \<^verbatim>\<open>inheritedMembers\<close>, in that order; and the item with a \<^verbatim>\<open>parent\<close>
  that is absent from the global map deleted and \<^verbatim>\<open>children\<close> and \<^verbatim>\<open>inheritedMembers\<close> filtered
  to the uids present in the map.
\<close>

definition declared_uids :: "item \<Rightarrow> string list" where
  "declared_uids it =
     (case it_parent it of None \<Rightarrow> [] | Some p \<Rightarrow> [p]) @
     (case it_children it of None \<Rightarrow> [] | Some cs \<Rightarrow> cs) @
     (case it_inheritedMembers it of None \<Rightarrow> [] | Some ms \<Rightarrow> ms)"

definition pruned_item :: "xrefmap \<Rightarrow> item \<Rightarrow> item" where
  "pruned_item xrefmap it =
     it\<lparr>it_parent := (case it_parent it of
                        None \<Rightarrow> None
                      | Some p \<Rightarrow> if xrefmap p = None then None else Some p),
        it_children := map_option (filter (\<lambda>c. xrefmap c \<noteq> None)) (it_children it),
        it_inheritedMembers := map_option (filter (\<lambda>c. xrefmap c \<noteq> None)) (it_inheritedMembers it)\<rparr>"

section \<open>Content accumulation\<close>

lemma add_content_no_owner:
  "(\<forall>n \<in> set chain. n_text n = None) \<Longrightarrow> add_content chain content = chain"
  by (induction chain) auto

text \<open>
  C1. Appending content at a node: if the node owns a text buffer, the content is appended
  to that buffer in place (and no other node changes); otherwise the append is exactly the
  append at the node's parent; and if no node on the chain owns a buffer, the chain is
  unchanged: the content is discarded.
\<close>

theorem add_content_rule:
  "(n_text self = Some t \<longrightarrow>
      add_content (self # parents) content = self\<lparr>n_text := Some (t @ content)\<rparr> # parents) \<and>
   (n_text self = None \<longrightarrow>
      add_content (self # parents) content = self # add_content parents content) \<and>
   ((\<forall>n \<in> set (self # parents). n_text n = None) \<longrightarrow>
      add_content (self # parents) content = self # parents)"
proof (intro conjI impI)
  assume "\<forall>n \<in> set (self # parents). n_text n = None"
  then show "add_content (self # parents) content = self # parents"
    by (rule add_content_no_owner)
qed simp_all

theorem add_content_rule_witness:
  "add_content
     [\<lparr>n_tag = ''briefdescription'', n_attrs = Map.empty, n_text = Some ''ab'', n_is_closed = False\<rparr>,
      \<lparr>n_tag = ''compounddef'', n_attrs = Map.empty, n_text = Some ''x'', n_is_closed = False\<rparr>] ''cd''
   = [\<lparr>n_tag = ''briefdescription'', n_attrs = Map.empty, n_text = Some ''abcd'', n_is_closed = False\<rparr>,
      \<lparr>n_tag = ''compounddef'', n_attrs = Map.empty, n_text = Some ''x'', n_is_closed = False\<rparr>] \<and>
   add_content
     [\<lparr>n_tag = ''bold'', n_attrs = Map.empty, n_text = None, n_is_closed = False\<rparr>,
      \<lparr>n_tag = ''para'', n_attrs = Map.empty, n_text = None, n_is_closed = False\<rparr>] ''cd''
   = [\<lparr>n_tag = ''bold'', n_attrs = Map.empty, n_text = None, n_is_closed = False\<rparr>,
      \<lparr>n_tag = ''para'', n_attrs = Map.empty, n_text = None, n_is_closed = False\<rparr>]"
  using add_content_rule
    [of "\<lparr>n_tag = ''briefdescription'', n_attrs = Map.empty, n_text = Some ''ab'', n_is_closed = False\<rparr>"
        "''ab''"
        "[\<lparr>n_tag = ''compounddef'', n_attrs = Map.empty, n_text = Some ''x'', n_is_closed = False\<rparr>]"
        "''cd''"]
    add_content_rule
    [of "\<lparr>n_tag = ''bold'', n_attrs = Map.empty, n_text = None, n_is_closed = False\<rparr>" "''ab''"
        "[\<lparr>n_tag = ''para'', n_attrs = Map.empty, n_text = None, n_is_closed = False\<rparr>]" "''cd''"]
  by simp

section \<open>Greedy repetition\<close>

lemma star_first:
  "(\<forall>c \<in> set xs. p c) \<Longrightarrow> star p k (got @ xs) t = Some r \<Longrightarrow> star p k got (xs @ t) = Some r"
  by (induction xs arbitrary: got) auto

lemma star_longer_fail:
  "(\<forall>i. 0 < i \<and> i \<le> length t \<longrightarrow> k (got @ take i t) (drop i t) = None) \<Longrightarrow>
   star p k got t = k got t"
proof (induction t arbitrary: got)
  case Nil
  then show ?case by simp
next
  case (Cons c cs)
  have "star p k (got @ [c]) cs = k (got @ [c]) cs"
  proof (rule Cons.IH, intro allI impI)
    fix i assume "0 < i \<and> i \<le> length cs"
    then have "k (got @ take (Suc i) (c # cs)) (drop (Suc i) (c # cs)) = None"
      using Cons.prems by (metis Suc_le_mono length_Cons zero_less_Suc)
    then show "k ((got @ [c]) @ take i cs) (drop i cs) = None" by simp
  qed
  moreover have "k (got @ [c]) cs = None"
    using Cons.prems[rule_format, of 1] by simp
  ultimately show ?case by simp
qed



lemma startswith_append: "startswith (l @ s) l"
  by (simp add: startswith_def)

lemma lit_append: "lit l k (l @ s) = k s"
  by (simp add: lit_def startswith_append)

lemma lit_Nil: "lit [] k s = k s"
  by (simp add: lit_def startswith_def)

lemma lit_Cons_Cons: "lit (x # l) k (y # s) = (if x = y then lit l k s else None)"
  by (simp add: lit_def startswith_def)

lemma lit_Cons_Nil: "lit (x # l) k [] = None"
  by (simp add: lit_def startswith_def)

lemmas lit_simps = lit_Nil lit_Cons_Cons lit_Cons_Nil











section \<open>Code blocks and formulas\<close>

text \<open>
  C8. A code block whose buffered text begins with the marker line \<^verbatim>\<open>" {c++}\n"\<close> is emitted
  with the language \<^verbatim>\<open>cpp\<close> and without the marker line; a declared language \<^verbatim>\<open>c++\<close> becomes
  \<^verbatim>\<open>cpp\<close>; any other declared language is kept. What is emitted is a line feed, the fence
  with the language, a line feed, the text and the closing fence with a line feed, added
  with \<^verbatim>\<open>add_content\<close> at the parent; the block then gives up its buffer.
\<close>

theorem ProgramListing_leave_fence:
  assumes "n_text self = Some text" and "parents \<noteq> []"
  shows "ProgramListing_leave (self # parents) items =
           Inr ((if startswith text INFERRED_CPP \<or> get_filename self = ''c++''
                 then self\<lparr>n_attrs := (n_attrs self)(''filename'' \<mapsto> ''cpp''), n_text := None\<rparr>
                 else self\<lparr>n_text := None\<rparr>) #
                add_content parents
                  (''\<newline>```'' @
                   (if startswith text INFERRED_CPP \<or> get_filename self = ''c++'' then ''cpp''
                    else get_filename self) @
                   ''\<newline>'' @
                   (if startswith text INFERRED_CPP then drop (length INFERRED_CPP) text else text) @
                   ''```\<newline>''),
                items)"
  using assms
  by (cases parents)
     (simp_all add: lit_simps ProgramListing_leave_def get_filename_def Let_def del: add_content.simps)

theorem ProgramListing_leave_fence_witness:
  "ProgramListing_leave
     [\<lparr>n_tag = ''programlisting'', n_attrs = Map.empty, n_text = Some '' {c++}\<newline>int x;\<newline>'', n_is_closed = False\<rparr>,
      \<lparr>n_tag = ''para'', n_attrs = Map.empty, n_text = None, n_is_closed = False\<rparr>,
      \<lparr>n_tag = ''detaileddescription'', n_attrs = Map.empty, n_text = Some ''a'', n_is_closed = False\<rparr>] []
   = Inr ([\<lparr>n_tag = ''programlisting'', n_attrs = [''filename'' \<mapsto> ''cpp''], n_text = None, n_is_closed = False\<rparr>,
           \<lparr>n_tag = ''para'', n_attrs = Map.empty, n_text = None, n_is_closed = False\<rparr>,
           \<lparr>n_tag = ''detaileddescription'', n_attrs = Map.empty,
              n_text = Some ''a\<newline>```cpp\<newline>int x;\<newline>```\<newline>'', n_is_closed = False\<rparr>], [])"
  using ProgramListing_leave_fence
    [of "\<lparr>n_tag = ''programlisting'', n_attrs = Map.empty, n_text = Some '' {c++}\<newline>int x;\<newline>'', n_is_closed = False\<rparr>"
        "'' {c++}\<newline>int x;\<newline>''"
        "[\<lparr>n_tag = ''para'', n_attrs = Map.empty, n_text = None, n_is_closed = False\<rparr>,
          \<lparr>n_tag = ''detaileddescription'', n_attrs = Map.empty, n_text = Some ''a'', n_is_closed = False\<rparr>]"
        "[]"]
  by (simp add: lit_simps INFERRED_CPP_def startswith_def)



section \<open>Cross-reference links in code spans\<close>

lemma add_content_append:
  "add_content (add_content chain a) b = add_content chain (a @ b)"
  by (induction chain) (auto split: option.splits)

lemma insert_bracket_owner:
  "(\<forall>n \<in> set pre. n_text n = None) \<Longrightarrow> n_text owner = Some t \<Longrightarrow>
   insert_bracket (pre @ owner # post) =
     pre @ owner\<lparr>n_text := Some (butlast t @ ''['' @ (if t = [] then [] else [last t]))\<rparr> # post"
  by (induction pre) auto

lemma insert_bracket_no_owner:
  "(\<forall>n \<in> set chain. n_text n = None) \<Longrightarrow> insert_bracket chain = chain"
  by (induction chain) auto

lemma add_content_closed:
  "add_content (co\<lparr>n_is_closed := True\<rparr> # rest) content = co' # rest' \<Longrightarrow> n_is_closed co'"
  by (auto split: option.splits)

lemma Ref_leave_in_code_span:
  assumes "n_tag co = ''computeroutput''" "n_text self = None" "n_attrs self ''refid'' = Some refid"
  shows "Ref_leave (self # co # rest) items =
           Inr (self # add_content (co\<lparr>n_is_closed := True\<rparr> # rest) (''`](xref:'' @ refid @ '')''), items)"
proof (cases "n_text co")
  case None
  then show ?thesis
    using assms add_content_append[of rest "''`''" "''](xref:'' @ refid @ '')''"]
    by (simp add: Ref_leave_def has_tag_def close_parent_def getattr_def err_bind_def)
next
  case (Some t)
  then show ?thesis
    using assms
    by (simp add: Ref_leave_def has_tag_def close_parent_def getattr_def err_bind_def)
qed

text \<open>
  C5 (amended). A cross-reference link whose parent is an inline-code span: on enter, the
  opening bracket is inserted immediately before the last character of the nearest owned
  buffer, found by walking up from the code span through the nodes whose buffer is unset
  (that character is the span's leading backtick when the link is the first content of the
  span, so the bracket stands before the backtick, not after it), and nothing changes when
  no node owns a buffer; on close, a closing backtick and then the suffix
  \<^verbatim>\<open>](xref:<id>)\<close> are appended and the code span is marked closed, so that its own leave
  hook adds nothing.
\<close>

theorem Ref_in_code_span:
  assumes "n_tag co = ''computeroutput''" "n_text self = None" "n_attrs self ''refid'' = Some refid"
  shows "Ref_enter (self # co # rest) items = Inr (self # insert_bracket (co # rest), items) \<and>
         (\<forall>pre owner post t c.
            co # rest = pre @ owner # post \<and> (\<forall>n \<in> set pre. n_text n = None) \<and>
            n_text owner = Some (t @ [c]) \<longrightarrow>
            insert_bracket (co # rest) = pre @ owner\<lparr>n_text := Some (t @ ''['' @ [c])\<rparr> # post) \<and>
         ((\<forall>n \<in> set (co # rest). n_text n = None) \<longrightarrow> insert_bracket (co # rest) = co # rest) \<and>
         Ref_leave (self # co # rest) items =
           Inr (self # add_content (co\<lparr>n_is_closed := True\<rparr> # rest) (''`](xref:'' @ refid @ '')''), items) \<and>
         (\<forall>content.
            ComputerOutput_leave (add_content (co\<lparr>n_is_closed := True\<rparr> # rest) content) items =
              Inr (add_content (co\<lparr>n_is_closed := True\<rparr> # rest) content, items))"
proof (intro conjI allI impI)
  show "Ref_enter (self # co # rest) items = Inr (self # insert_bracket (co # rest), items)"
    using assms(1) by (simp add: Ref_enter_def has_tag_def del: insert_bracket.simps)
next
  fix pre owner post t c
  assume h: "co # rest = pre @ owner # post \<and> (\<forall>n \<in> set pre. n_text n = None) \<and>
             n_text owner = Some (t @ [c])"
  then have "insert_bracket (pre @ owner # post) =
               pre @ owner\<lparr>n_text := Some (butlast (t @ [c]) @ ''['' @
                 (if t @ [c] = [] then [] else [last (t @ [c])]))\<rparr> # post"
    by (intro insert_bracket_owner) simp_all
  with h show "insert_bracket (co # rest) = pre @ owner\<lparr>n_text := Some (t @ ''['' @ [c])\<rparr> # post"
    by simp
next
  assume "\<forall>n \<in> set (co # rest). n_text n = None"
  then show "insert_bracket (co # rest) = co # rest" by (rule insert_bracket_no_owner)
next
  show "Ref_leave (self # co # rest) items =
           Inr (self # add_content (co\<lparr>n_is_closed := True\<rparr> # rest) (''`](xref:'' @ refid @ '')''), items)"
    using assms by (rule Ref_leave_in_code_span)
next
  fix content
  obtain co' rest' where eq: "add_content (co\<lparr>n_is_closed := True\<rparr> # rest) content = co' # rest'"
    by (cases "add_content (co\<lparr>n_is_closed := True\<rparr> # rest) content") (auto split: option.splits)
  then have "n_is_closed co'" by (rule add_content_closed)
  with eq show "ComputerOutput_leave (add_content (co\<lparr>n_is_closed := True\<rparr> # rest) content) items =
              Inr (add_content (co\<lparr>n_is_closed := True\<rparr> # rest) content, items)"
    by (simp add: ComputerOutput_leave_def del: add_content.simps)
qed

theorem Ref_in_code_span_witness:
  "Ref_enter
     [\<lparr>n_tag = ''ref'', n_attrs = [''refid'' \<mapsto> ''classB''], n_text = None, n_is_closed = False\<rparr>,
      \<lparr>n_tag = ''computeroutput'', n_attrs = Map.empty, n_text = None, n_is_closed = False\<rparr>,
      \<lparr>n_tag = ''briefdescription'', n_attrs = Map.empty, n_text = Some ''see `'', n_is_closed = False\<rparr>] []
   = Inr ([\<lparr>n_tag = ''ref'', n_attrs = [''refid'' \<mapsto> ''classB''], n_text = None, n_is_closed = False\<rparr>,
           \<lparr>n_tag = ''computeroutput'', n_attrs = Map.empty, n_text = None, n_is_closed = False\<rparr>,
           \<lparr>n_tag = ''briefdescription'', n_attrs = Map.empty, n_text = Some ''see [`'', n_is_closed = False\<rparr>], []) \<and>
   Ref_leave
     [\<lparr>n_tag = ''ref'', n_attrs = [''refid'' \<mapsto> ''classB''], n_text = None, n_is_closed = False\<rparr>,
      \<lparr>n_tag = ''computeroutput'', n_attrs = Map.empty, n_text = None, n_is_closed = False\<rparr>,
      \<lparr>n_tag = ''briefdescription'', n_attrs = Map.empty, n_text = Some ''see [`B'', n_is_closed = False\<rparr>] []
   = Inr ([\<lparr>n_tag = ''ref'', n_attrs = [''refid'' \<mapsto> ''classB''], n_text = None, n_is_closed = False\<rparr>,
           \<lparr>n_tag = ''computeroutput'', n_attrs = Map.empty, n_text = None, n_is_closed = True\<rparr>,
           \<lparr>n_tag = ''briefdescription'', n_attrs = Map.empty, n_text = Some ''see [`B`](xref:classB)'', n_is_closed = False\<rparr>], []) \<and>
   ComputerOutput_leave
     [\<lparr>n_tag = ''computeroutput'', n_attrs = Map.empty, n_text = None, n_is_closed = True\<rparr>,
      \<lparr>n_tag = ''briefdescription'', n_attrs = Map.empty, n_text = Some ''see [`B`](xref:classB)'', n_is_closed = False\<rparr>] []
   = Inr ([\<lparr>n_tag = ''computeroutput'', n_attrs = Map.empty, n_text = None, n_is_closed = True\<rparr>,
           \<lparr>n_tag = ''briefdescription'', n_attrs = Map.empty, n_text = Some ''see [`B`](xref:classB)'', n_is_closed = False\<rparr>], [])"
  using Ref_in_code_span
    [of "\<lparr>n_tag = ''computeroutput'', n_attrs = Map.empty, n_text = None, n_is_closed = False\<rparr>"
        "\<lparr>n_tag = ''ref'', n_attrs = [''refid'' \<mapsto> ''classB''], n_text = None, n_is_closed = False\<rparr>"
        "''classB''"
        "[\<lparr>n_tag = ''briefdescription'', n_attrs = Map.empty, n_text = Some ''see `'', n_is_closed = False\<rparr>]"
        "[]"]
    Ref_in_code_span
    [of "\<lparr>n_tag = ''computeroutput'', n_attrs = Map.empty, n_text = None, n_is_closed = False\<rparr>"
        "\<lparr>n_tag = ''ref'', n_attrs = [''refid'' \<mapsto> ''classB''], n_text = None, n_is_closed = False\<rparr>"
        "''classB''"
        "[\<lparr>n_tag = ''briefdescription'', n_attrs = Map.empty, n_text = Some ''see `'', n_is_closed = False\<rparr>]"
        "[]", THEN conjunct2, THEN conjunct1, rule_format,
        of "[\<lparr>n_tag = ''computeroutput'', n_attrs = Map.empty, n_text = None, n_is_closed = False\<rparr>]"
           "\<lparr>n_tag = ''briefdescription'', n_attrs = Map.empty, n_text = Some ''see `'', n_is_closed = False\<rparr>"
           "[]" "''see ''" "CHR 0x60"]
    Ref_in_code_span
    [of "\<lparr>n_tag = ''computeroutput'', n_attrs = Map.empty, n_text = None, n_is_closed = False\<rparr>"
        "\<lparr>n_tag = ''ref'', n_attrs = [''refid'' \<mapsto> ''classB''], n_text = None, n_is_closed = False\<rparr>"
        "''classB''"
        "[\<lparr>n_tag = ''briefdescription'', n_attrs = Map.empty, n_text = Some ''see [`B'', n_is_closed = False\<rparr>]"
        "[]"]
    Ref_in_code_span
    [of "\<lparr>n_tag = ''computeroutput'', n_attrs = Map.empty, n_text = None, n_is_closed = False\<rparr>"
        "\<lparr>n_tag = ''ref'', n_attrs = [''refid'' \<mapsto> ''classB''], n_text = None, n_is_closed = False\<rparr>"
        "''classB''"
        "[\<lparr>n_tag = ''briefdescription'', n_attrs = Map.empty, n_text = Some ''see [`B'', n_is_closed = False\<rparr>]"
        "[]", THEN conjunct2, THEN conjunct2, THEN conjunct2, THEN conjunct2, rule_format,
        of "''`](xref:classB)''"]
  by simp

text \<open>
  C5 as the specification states it puts the bracket after the backtick. For a link that is the first
  content of a code span the handlers produce \<^verbatim>\<open>[`B`](xref:classB)\<close>, the bracket before the
  backtick.
\<close>

theorem Ref_bracket_counterexample:
  "(case parse_events
           [StartElement ''briefdescription'' [], Characters ''see '',
            StartElement ''computeroutput'' [],
            StartElement ''ref'' [(''refid'', ''classB'')], Characters ''B'', EndElement ''ref'',
            EndElement ''computeroutput''] ([], []) of
      Inl e \<Rightarrow> False
    | Inr (chain, items) \<Rightarrow>
        get_content chain = Some ''see [`B`](xref:classB)'' \<and>
        get_content chain \<noteq> Some ''see `[B`](xref:classB)'')"
  by code_simp

section \<open>Name events\<close>

lemma set_sorted_set: "set (sorted_set xs) = set xs"
  by (simp add: sorted_set_def)

lemma getattr_hasattr: "getattr entity a = Inr v \<Longrightarrow> hasattr entity a"
  by (auto simp: getattr_def hasattr_def split: option.splits)

text \<open>
  C10. A name event in a list-of-all-members context, with the owning compound's id and the
  member's \<^verbatim>\<open>refid\<close> present: if the compound is in the item mapping and the member id is not
  among its \<^verbatim>\<open>children\<close> at that moment, the compound's \<^verbatim>\<open>inheritedMembers\<close> becomes the sorted,
  duplicate-free list of its old entries and the member id; if the compound is not in the
  mapping, or the member id is one of its \<^verbatim>\<open>children\<close>, the item mapping is unchanged.
\<close>

theorem Name_inherited_member:
  assumes "has_tag (ancestor chain 2) ''listofallmembers''"
    and "getattr (ancestor chain 3) ''id'' = Inr parent_id"
    and "getattr (ancestor chain 1) ''refid'' = Inr member_id"
  shows "(\<forall>p. map_of items parent_id = Some p \<and>
              (\<forall>cs. it_children p = Some cs \<longrightarrow> member_id \<notin> set cs) \<longrightarrow>
              Name_characters chain content items =
                Inr (chain,
                     AList.map_entry parent_id
                       (\<lambda>it. it\<lparr>it_inheritedMembers :=
                                 Some (sorted_set ((case it_inheritedMembers p of None \<Rightarrow> [] | Some ms \<Rightarrow> ms) @
                                                   [member_id]))\<rparr>)
                       items) \<and>
              set (sorted_set ((case it_inheritedMembers p of None \<Rightarrow> [] | Some ms \<Rightarrow> ms) @ [member_id])) =
                insert member_id (case it_inheritedMembers p of None \<Rightarrow> {} | Some ms \<Rightarrow> set ms)) \<and>
         (map_of items parent_id = None \<longrightarrow> Name_characters chain content items = Inr (chain, items)) \<and>
         (\<forall>p cs. map_of items parent_id = Some p \<and> it_children p = Some cs \<and> member_id \<in> set cs \<longrightarrow>
                 Name_characters chain content items = Inr (chain, items))"
  using assms
  by (auto simp: Name_characters_def Name_inherited_def err_bind_def Let_def set_sorted_set
      split: option.splits)

lemma Name_child_type:
  assumes "getattr (ancestor chain 3) ''id'' = Inr parent_id"
    and "getattr (ancestor chain 1) ''id'' = Inr item_id"
    and "map_of items parent_id = Some p" and "it_name p = Some parent_name"
    and "it_fullName p = Some parent_fullName"
    and "map_of items item_id = Some it" and "item_id \<noteq> parent_id"
  shows "\<exists>items'. Name_child chain content items = Inr (chain, items') \<and>
           map_option it_type (map_of items' item_id) =
             Some (if it_type it = ''function''
                   then (if content = simple_name parent_name then ''constructor'' else ''method'')
                   else it_type it) \<and>
           map_option it_name (map_of items' item_id) = Some (Some content) \<and>
           map_option it_fullName (map_of items' item_id) = Some (Some (parent_fullName @ ''::'' @ content))"
  using assms
  by (simp add: Name_child_def Name_reclassify_def err_bind_def get_item_def get_key_def Let_def
      map_of_map_entry translate_def)

text \<open>The simple name: what \<^verbatim>\<open>re.sub(".*::", "", parent_name)\<close> leaves of a qualified name.\<close>

lemma startswith_search: "startswith s l \<Longrightarrow> search_lit l s"
  by (cases s) simp_all

lemma search_lit_drop: "search_lit l (drop i s) \<Longrightarrow> search_lit l s"
proof (induction s arbitrary: i)
  case Nil
  then show ?case by simp
next
  case (Cons c cs)
  show ?case
  proof (cases i)
    case 0
    with Cons.prems show ?thesis by simp
  next
    case (Suc j)
    with Cons.prems have "search_lit l (drop j cs)" by simp
    then have "search_lit l cs" by (rule Cons.IH)
    then show ?thesis by simp
  qed
qed

lemma lit_absent: "\<not> search_lit l s \<Longrightarrow> lit l k (drop i s) = None"
  using search_lit_drop startswith_search by (fastforce simp: lit_def)

lemma star_all_fail:
  "(\<forall>i \<le> length s. k (got @ take i s) (drop i s) = None) \<Longrightarrow> star p k got s = None"
proof (induction s arbitrary: got)
  case Nil
  then show ?case by simp
next
  case (Cons c cs)
  have "star p k (got @ [c]) cs = None"
  proof (rule Cons.IH, intro allI impI)
    fix i assume "i \<le> length cs"
    then show "k ((got @ [c]) @ take i cs) (drop i cs) = None"
      using Cons.prems[rule_format, of "Suc i"] by simp
  qed
  moreover have "k got (c # cs) = None"
    using Cons.prems[rule_format, of 0] by simp
  ultimately show ?case by simp
qed

lemma scope_prefix_absent: "\<not> search_lit ''::'' s \<Longrightarrow> scope_prefix s = None"
  unfolding scope_prefix_def by (rule star_all_fail) (simp add: lit_absent)

lemma re_sub_no_match:
  "(\<forall>i. m (drop i s) = None) \<Longrightarrow> re_sub m 0 s = s"
proof (induction s)
  case Nil
  then show ?case by simp
next
  case (Cons c cs)
  have "m (c # cs) = None" using Cons.prems[rule_format, of 0] by simp
  moreover have "\<forall>i. m (drop i cs) = None"
    using Cons.prems[rule_format, of "Suc _"] by simp
  ultimately show ?case using Cons.IH by simp
qed

lemma simple_name_unqualified:
  assumes "\<not> search_lit ''::'' n"
  shows "simple_name n = n"
  unfolding simple_name_def
proof (rule re_sub_no_match, rule allI)
  fix i
  have "\<not> search_lit ''::'' (drop i n)" using assms search_lit_drop by blast
  then show "scope_prefix (drop i n) = None" by (rule scope_prefix_absent)
qed

lemma re_sub_skip: "re_sub m (length xs) (xs @ ys) = re_sub m 0 ys"
  by (induction xs) simp_all

lemma scope_prefix_last:
  assumes q: "\<forall>c \<in> set q. dot c" and n: "\<not> search_lit ''::'' n"
    and h: "n = [] \<or> hd n \<noteq> CHR '':''"
  shows "scope_prefix (q @ ''::'' @ n) = Some ([], n)"
proof -
  let ?k = "\<lambda>(got :: string) rest. lit ''::'' (\<lambda>rest'. Some ([] :: string, rest')) rest"
  let ?t = "''::'' @ n"
  have fail: "?k (q @ take i ?t) (drop i ?t) = None" if "0 < i" for i
  proof (cases i)
    case 0
    with that show ?thesis by simp
  next
    case (Suc j)
    show ?thesis
    proof (cases j)
      case 0
      with Suc h show ?thesis by (cases n) (simp_all add: lit_simps)
    next
      case (Suc m)
      have "lit ''::'' (\<lambda>rest'. Some ([] :: string, rest')) (drop m n) = None"
        using n by (rule lit_absent)
      with Suc \<open>i = Suc j\<close> show ?thesis by simp
    qed
  qed
  have "star dot ?k q ?t = ?k q ?t"
    by (rule star_longer_fail) (use fail in blast)
  then have "star dot ?k ([] @ q) ?t = Some ([], n)" by (simp add: lit_simps)
  then have "star dot ?k [] (q @ ?t) = Some ([], n)" by (rule star_first[OF q])
  then show ?thesis by (simp add: scope_prefix_def)
qed

lemma simple_name_qualified:
  assumes q: "\<forall>c \<in> set q. dot c" and n: "\<not> search_lit ''::'' n"
    and h: "n = [] \<or> hd n \<noteq> CHR '':''"
  shows "simple_name (q @ ''::'' @ n) = n"
proof -
  obtain c xs where cx: "q @ ''::'' = c # xs" by (cases "q @ ''::''") auto
  then have s: "q @ ''::'' @ n = c # (xs @ n)" by (metis append.assoc append_Cons)
  have "simple_name (q @ ''::'' @ n) = re_sub scope_prefix 0 (c # (xs @ n))"
    by (simp only: simple_name_def s)
  also have "\<dots> = re_sub scope_prefix (length (xs @ n) - length n) (xs @ n)"
    using scope_prefix_last[OF assms] by (simp only: s re_sub.simps option.case prod.case append_Nil)
  also have "\<dots> = re_sub scope_prefix (length xs) (xs @ n)" by simp
  also have "\<dots> = re_sub scope_prefix 0 n" by (rule re_sub_skip)
  also have "\<dots> = n"
    using simple_name_unqualified[OF n] by (simp only: simple_name_def)
  finally show ?thesis .
qed

text \<open>
  C7 (amended). A name event that is not in a list-of-all-members context, under a third
  ancestor with an id whose item has a name and a full name, for a materialised member other
  than that ancestor: the member's \<^verbatim>\<open>type\<close> becomes \<^verbatim>\<open>constructor\<close> if the name equals the
  enclosing type's simple name and \<^verbatim>\<open>method\<close> otherwise, provided its \<^verbatim>\<open>type\<close> is \<^verbatim>\<open>function\<close>;
  a member of any other kind keeps its \<^verbatim>\<open>type\<close>. Members of the kinds friend, type, typedef
  and variable are never materialised. The simple name of a qualified name is what follows
  its last \<^verbatim>\<open>::\<close>, and an unqualified name is its own simple name.
\<close>

theorem Name_reclassifies_function:
  assumes "\<not> has_tag (ancestor chain 2) ''listofallmembers''"
    and "getattr (ancestor chain 3) ''id'' = Inr parent_id"
    and "getattr (ancestor chain 1) ''id'' = Inr item_id"
    and "map_of items parent_id = Some p" and "it_name p = Some parent_name"
    and "it_fullName p = Some parent_fullName"
    and "map_of items item_id = Some it" and "item_id \<noteq> parent_id"
  shows "(\<exists>items'. Name_characters chain content items = Inr (chain, items') \<and>
            map_option it_type (map_of items' item_id) =
              Some (if it_type it = ''function''
                    then (if content = simple_name parent_name then ''constructor'' else ''method'')
                    else it_type it)) \<and>
         (\<forall>mchain kind.
            getattr (ancestor mchain 0) ''kind'' = Inr kind \<and>
            kind \<in> {''friend'', ''type'', ''typedef'', ''variable''} \<longrightarrow>
            MemberDef_enter mchain items = Inr (mchain, items)) \<and>
         (\<forall>q n.
            CHR ''\<newline>'' \<notin> set q \<and> \<not> search_lit ''::'' n \<and> (n = [] \<or> hd n \<noteq> CHR '':'') \<longrightarrow>
            simple_name (q @ ''::'' @ n) = n \<and> simple_name n = n)"
proof (intro conjI allI impI)
  have "hasattr (ancestor chain 3) ''id''"
    using assms(2) by (rule getattr_hasattr)
  then have "Name_characters chain content items = Name_child chain content items"
    using assms(1) by (simp add: Name_characters_def)
  then show "\<exists>items'. Name_characters chain content items = Inr (chain, items') \<and>
            map_option it_type (map_of items' item_id) =
              Some (if it_type it = ''function''
                    then (if content = simple_name parent_name then ''constructor'' else ''method'')
                    else it_type it)"
    using Name_child_type[OF assms(2-8), of content] by auto
next
  fix mchain kind
  assume "getattr (ancestor mchain 0) ''kind'' = Inr kind \<and>
          kind \<in> {''friend'', ''type'', ''typedef'', ''variable''}"
  then show "MemberDef_enter mchain items = Inr (mchain, items)"
    by (auto simp: MemberDef_enter_def err_bind_def)
next
  fix q n
  assume h: "CHR ''\<newline>'' \<notin> set q \<and> \<not> search_lit ''::'' n \<and> (n = [] \<or> hd n \<noteq> CHR '':'')"
  then have "\<forall>c \<in> set q. dot c" by (auto simp: dot_def)
  with h show "simple_name (q @ ''::'' @ n) = n"
    by (intro simple_name_qualified) simp_all
next
  fix q n
  assume "CHR ''\<newline>'' \<notin> set q \<and> \<not> search_lit ''::'' n \<and> (n = [] \<or> hd n \<noteq> CHR '':'')"
  then show "simple_name n = n" by (intro simple_name_unqualified) simp
qed


theorem Name_inherited_member_witness:
  "Name_characters
     [\<lparr>n_tag = ''name'', n_attrs = Map.empty, n_text = None, n_is_closed = False\<rparr>,
      \<lparr>n_tag = ''member'', n_attrs = [''refid'' \<mapsto> ''m9''], n_text = None, n_is_closed = False\<rparr>,
      \<lparr>n_tag = ''listofallmembers'', n_attrs = Map.empty, n_text = None, n_is_closed = False\<rparr>,
      \<lparr>n_tag = ''compounddef'', n_attrs = [''id'' \<mapsto> ''classA''], n_text = None, n_is_closed = False\<rparr>]
     ''f'' [(''classA'', (new_item ''classA'' None ''class'')\<lparr>it_children := Some [''m1'']\<rparr>)]
   = Inr ([\<lparr>n_tag = ''name'', n_attrs = Map.empty, n_text = None, n_is_closed = False\<rparr>,
           \<lparr>n_tag = ''member'', n_attrs = [''refid'' \<mapsto> ''m9''], n_text = None, n_is_closed = False\<rparr>,
           \<lparr>n_tag = ''listofallmembers'', n_attrs = Map.empty, n_text = None, n_is_closed = False\<rparr>,
           \<lparr>n_tag = ''compounddef'', n_attrs = [''id'' \<mapsto> ''classA''], n_text = None, n_is_closed = False\<rparr>],
          [(''classA'', (new_item ''classA'' None ''class'')
                          \<lparr>it_children := Some [''m1''], it_inheritedMembers := Some [''m9'']\<rparr>)]) \<and>
   Name_characters
     [\<lparr>n_tag = ''name'', n_attrs = Map.empty, n_text = None, n_is_closed = False\<rparr>,
      \<lparr>n_tag = ''member'', n_attrs = [''refid'' \<mapsto> ''m1''], n_text = None, n_is_closed = False\<rparr>,
      \<lparr>n_tag = ''listofallmembers'', n_attrs = Map.empty, n_text = None, n_is_closed = False\<rparr>,
      \<lparr>n_tag = ''compounddef'', n_attrs = [''id'' \<mapsto> ''classA''], n_text = None, n_is_closed = False\<rparr>]
     ''f'' [(''classA'', (new_item ''classA'' None ''class'')\<lparr>it_children := Some [''m1'']\<rparr>)]
   = Inr ([\<lparr>n_tag = ''name'', n_attrs = Map.empty, n_text = None, n_is_closed = False\<rparr>,
           \<lparr>n_tag = ''member'', n_attrs = [''refid'' \<mapsto> ''m1''], n_text = None, n_is_closed = False\<rparr>,
           \<lparr>n_tag = ''listofallmembers'', n_attrs = Map.empty, n_text = None, n_is_closed = False\<rparr>,
           \<lparr>n_tag = ''compounddef'', n_attrs = [''id'' \<mapsto> ''classA''], n_text = None, n_is_closed = False\<rparr>],
          [(''classA'', (new_item ''classA'' None ''class'')\<lparr>it_children := Some [''m1'']\<rparr>)])"
  using Name_inherited_member
    [of "[\<lparr>n_tag = ''name'', n_attrs = Map.empty, n_text = None, n_is_closed = False\<rparr>,
          \<lparr>n_tag = ''member'', n_attrs = [''refid'' \<mapsto> ''m9''], n_text = None, n_is_closed = False\<rparr>,
          \<lparr>n_tag = ''listofallmembers'', n_attrs = Map.empty, n_text = None, n_is_closed = False\<rparr>,
          \<lparr>n_tag = ''compounddef'', n_attrs = [''id'' \<mapsto> ''classA''], n_text = None, n_is_closed = False\<rparr>]"
        "''classA''" "''m9''"
        "[(''classA'', (new_item ''classA'' None ''class'')\<lparr>it_children := Some [''m1'']\<rparr>)]" "''f''"]
    Name_inherited_member
    [of "[\<lparr>n_tag = ''name'', n_attrs = Map.empty, n_text = None, n_is_closed = False\<rparr>,
          \<lparr>n_tag = ''member'', n_attrs = [''refid'' \<mapsto> ''m1''], n_text = None, n_is_closed = False\<rparr>,
          \<lparr>n_tag = ''listofallmembers'', n_attrs = Map.empty, n_text = None, n_is_closed = False\<rparr>,
          \<lparr>n_tag = ''compounddef'', n_attrs = [''id'' \<mapsto> ''classA''], n_text = None, n_is_closed = False\<rparr>]"
        "''classA''" "''m1''"
        "[(''classA'', (new_item ''classA'' None ''class'')\<lparr>it_children := Some [''m1'']\<rparr>)]" "''f''"]
  by (simp add: has_tag_def getattr_def eval_nat_numeral new_item_def sorted_set_def)

theorem Name_reclassifies_function_witness:
  "\<exists>items'.
     Name_characters
       [\<lparr>n_tag = ''name'', n_attrs = Map.empty, n_text = None, n_is_closed = False\<rparr>,
        \<lparr>n_tag = ''memberdef'', n_attrs = [''kind'' \<mapsto> ''function'', ''id'' \<mapsto> ''m2''], n_text = None,
           n_is_closed = False\<rparr>,
        \<lparr>n_tag = ''sectiondef'', n_attrs = Map.empty, n_text = None, n_is_closed = False\<rparr>,
        \<lparr>n_tag = ''compounddef'', n_attrs = [''id'' \<mapsto> ''classA''], n_text = None, n_is_closed = False\<rparr>]
       ''A''
       [(''classA'', (new_item ''classA'' None ''class'')\<lparr>it_name := Some ''ns::A'', it_fullName := Some ''ns::A''\<rparr>),
        (''m2'', new_item ''m2'' (Some ''classA'') ''function'')]
     = Inr ([\<lparr>n_tag = ''name'', n_attrs = Map.empty, n_text = None, n_is_closed = False\<rparr>,
             \<lparr>n_tag = ''memberdef'', n_attrs = [''kind'' \<mapsto> ''function'', ''id'' \<mapsto> ''m2''], n_text = None,
                n_is_closed = False\<rparr>,
             \<lparr>n_tag = ''sectiondef'', n_attrs = Map.empty, n_text = None, n_is_closed = False\<rparr>,
             \<lparr>n_tag = ''compounddef'', n_attrs = [''id'' \<mapsto> ''classA''], n_text = None, n_is_closed = False\<rparr>],
            items') \<and>
     map_option it_type (map_of items' ''m2'') = Some ''constructor''"
proof -
  have s: "simple_name ''ns::A'' = ''A''" by code_simp
  show ?thesis
    using Name_reclassifies_function
      [of "[\<lparr>n_tag = ''name'', n_attrs = Map.empty, n_text = None, n_is_closed = False\<rparr>,
            \<lparr>n_tag = ''memberdef'', n_attrs = [''kind'' \<mapsto> ''function'', ''id'' \<mapsto> ''m2''], n_text = None,
               n_is_closed = False\<rparr>,
            \<lparr>n_tag = ''sectiondef'', n_attrs = Map.empty, n_text = None, n_is_closed = False\<rparr>,
            \<lparr>n_tag = ''compounddef'', n_attrs = [''id'' \<mapsto> ''classA''], n_text = None, n_is_closed = False\<rparr>]"
          "''classA''" "''m2''"
          "[(''classA'', (new_item ''classA'' None ''class'')\<lparr>it_name := Some ''ns::A'', it_fullName := Some ''ns::A''\<rparr>),
            (''m2'', new_item ''m2'' (Some ''classA'') ''function'')]"
          "(new_item ''classA'' None ''class'')\<lparr>it_name := Some ''ns::A'', it_fullName := Some ''ns::A''\<rparr>"
          "''ns::A''" "''ns::A''" "new_item ''m2'' (Some ''classA'') ''function''" "''A''"]
      s
    by (simp add: has_tag_def getattr_def eval_nat_numeral new_item_def translate_def)
qed

text \<open>
  C7 as the specification states it reclassifies every member whose kind is not excluded. An enumeration
  is not excluded, and its \<^verbatim>\<open>type\<close> stays \<^verbatim>\<open>enum\<close> after its name event.
\<close>

theorem Name_enum_counterexample:
  "(case parse
           [StartElement ''compounddef'' [(''id'', ''classA''), (''kind'', ''class'')],
            StartElement ''compoundname'' [], Characters ''A'', EndElement ''compoundname'',
            StartElement ''sectiondef'' [(''kind'', ''public-type'')],
            StartElement ''memberdef'' [(''kind'', ''enum''), (''id'', ''classA_1a0'')],
            StartElement ''name'' [], Characters ''Color'', EndElement ''name'',
            EndElement ''memberdef'', EndElement ''sectiondef'', EndElement ''compounddef''] of
      Inl e \<Rightarrow> False
    | Inr (stack, items) \<Rightarrow>
        map_option it_type (map_of items ''classA_1a0'') = Some ''enum'' \<and>
        map_option it_type (map_of items ''classA_1a0'') \<noteq> Some ''method'' \<and>
        map_option it_type (map_of items ''classA_1a0'') \<noteq> Some ''constructor'')"
  by code_simp

section \<open>The sorted relationship lists\<close>

lemma sorted_unique_sorted_set: "sorted_unique (Some (sorted_set xs))"
  by (simp add: sorted_unique_def sorted_set_def)

lemma items_ok_map_entry:
  "items_ok items \<Longrightarrow> (\<And>it. item_ok it \<Longrightarrow> item_ok (f it)) \<Longrightarrow> items_ok (AList.map_entry k f items)"
  by (induction items) (auto simp: items_ok_def)

lemma items_ok_update:
  "items_ok items \<Longrightarrow> item_ok v \<Longrightarrow> items_ok (AList.update k v items)"
  by (induction items) (auto simp: items_ok_def)

lemma item_ok_new_item: "item_ok (new_item item_id parent_id kind)"
  by (simp add: item_ok_def new_item_def sorted_unique_def)

lemma item_ok_frame:
  "item_ok (it\<lparr>it_name := a\<rparr>) = item_ok it"
  "item_ok (it\<lparr>it_fullName := b\<rparr>) = item_ok it"
  "item_ok (it\<lparr>it_type := c\<rparr>) = item_ok it"
  "item_ok (it\<lparr>it_children := d\<rparr>) = item_ok it"
  "item_ok (it\<lparr>it_syntax := e\<rparr>) = item_ok it"
  "item_ok (it\<lparr>it_langs := f\<rparr>) = item_ok it"
  "item_ok (it\<lparr>it_inheritance := g\<rparr>) = item_ok it"
  "item_ok (it\<lparr>it_brief := h\<rparr>) = item_ok it"
  "item_ok (it\<lparr>it_summary := i\<rparr>) = item_ok it"
  "item_ok (it\<lparr>it_description := j\<rparr>) = item_ok it"
  "item_ok (it\<lparr>it_source := k\<rparr>) = item_ok it"
  "item_ok (it\<lparr>it_overrides := l\<rparr>) = item_ok it"
  by (simp_all add: item_ok_def)

lemma item_ok_sorted_set:
  "item_ok it \<Longrightarrow> item_ok (it\<lparr>it_derivedClasses := Some (sorted_set xs)\<rparr>)"
  "item_ok it \<Longrightarrow> item_ok (it\<lparr>it_inheritedMembers := Some (sorted_set xs)\<rparr>)"
  by (simp_all add: item_ok_def sorted_unique_sorted_set)

lemmas item_ok_simps = sorted_unique_sorted_set item_ok_new_item item_ok_frame item_ok_sorted_set

lemma Name_characters_ok:
  "Name_characters chain content items = Inr (chain', items') \<Longrightarrow> items_ok items \<Longrightarrow> items_ok items'"
  by (auto simp: item_ok_simps Name_characters_def Name_inherited_def Name_child_def Name_reclassify_def
        err_bind_def get_item_def get_key_def Let_def
      split: if_splits option.splits sum.splits
      intro!: items_ok_map_entry)


lemma Definition_characters_ok:
  "Definition_characters chain content items = Inr (chain', items') \<Longrightarrow> items_ok items \<Longrightarrow> items_ok items'"
  by (auto simp: item_ok_simps Definition_characters_def err_bind_def split: if_splits sum.splits
      intro!: items_ok_map_entry)

lemma CompountName_characters_ok:
  "CompountName_characters chain content items = Inr (chain', items') \<Longrightarrow> items_ok items \<Longrightarrow> items_ok items'"
  by (auto simp: item_ok_simps CompountName_characters_def err_bind_def split: if_splits sum.splits
      intro!: items_ok_map_entry)

lemma CompoundDef_enter_ok:
  "CompoundDef_enter chain items = Inr (chain', items') \<Longrightarrow> items_ok items \<Longrightarrow> items_ok items'"
  by (auto simp: item_ok_simps CompoundDef_enter_def err_bind_def Let_def split: if_splits sum.splits
      intro!: items_ok_update)

lemma BaseCompoundRef_enter_ok:
  "BaseCompoundRef_enter chain items = Inr (chain', items') \<Longrightarrow> items_ok items \<Longrightarrow> items_ok items'"
  by (auto simp: item_ok_simps BaseCompoundRef_enter_def err_bind_def get_item_def Let_def
      split: if_splits sum.splits option.splits intro!: items_ok_map_entry)

lemma DerivedCompoundRef_enter_ok:
  "DerivedCompoundRef_enter chain items = Inr (chain', items') \<Longrightarrow> items_ok items \<Longrightarrow> items_ok items'"
  by (auto simp: item_ok_simps DerivedCompoundRef_enter_def err_bind_def get_item_def Let_def
      split: if_splits sum.splits option.splits intro!: items_ok_map_entry)

lemma MemberDef_enter_ok:
  "MemberDef_enter chain items = Inr (chain', items') \<Longrightarrow> items_ok items \<Longrightarrow> items_ok items'"
  by (auto simp: item_ok_simps MemberDef_enter_def err_bind_def split: if_splits sum.splits
      intro!: items_ok_update)

lemma BriefDescription_leave_ok:
  "BriefDescription_leave chain items = Inr (chain', items') \<Longrightarrow> items_ok items \<Longrightarrow> items_ok items'"
  by (auto simp: item_ok_simps BriefDescription_leave_def err_bind_def
      split: if_splits sum.splits option.splits list.splits intro!: items_ok_map_entry)

lemma DetailedDescription_leave_ok:
  "DetailedDescription_leave chain items = Inr (chain', items') \<Longrightarrow> items_ok items \<Longrightarrow> items_ok items'"
  by (auto simp: item_ok_simps DetailedDescription_leave_def err_bind_def
      split: if_splits sum.splits option.splits list.splits intro!: items_ok_map_entry)

lemma Location_enter_ok:
  "Location_enter chain items = Inr (chain', items') \<Longrightarrow> items_ok items \<Longrightarrow> items_ok items'"
  by (auto simp: item_ok_simps Location_enter_def err_bind_def
      split: if_splits sum.splits option.splits intro!: items_ok_map_entry)

lemma ReimplementedBy_enter_ok:
  "ReimplementedBy_enter chain items = Inr (chain', items') \<Longrightarrow> items_ok items \<Longrightarrow> items_ok items'"
  by (auto simp: item_ok_simps ReimplementedBy_enter_def err_bind_def
      split: if_splits sum.splits option.splits intro!: items_ok_map_entry)

text \<open>The handlers of the inline markup leave the item mapping as it is.\<close>

lemma markup_items:
  "ListItem_enter chain items = Inr (chain', items') \<Longrightarrow> items' = items"
  "Sp_enter chain items = Inr (chain', items') \<Longrightarrow> items' = items"
  "Para_characters chain content items = Inr (chain', items') \<Longrightarrow> items' = items"
  "ComputerOutput_enter chain items = Inr (chain', items') \<Longrightarrow> items' = items"
  "ComputerOutput_leave chain items = Inr (chain', items') \<Longrightarrow> items' = items"
  "own_text chain items = Inr (chain', items') \<Longrightarrow> items' = items"
  "ProgramListing_leave chain items = Inr (chain', items') \<Longrightarrow> items' = items"
  "Ref_enter chain items = Inr (chain', items') \<Longrightarrow> items' = items"
  "Ref_leave chain items = Inr (chain', items') \<Longrightarrow> items' = items"
  "Formula_leave chain items = Inr (chain', items') \<Longrightarrow> items' = items"
  by (auto simp: ListItem_enter_def Sp_enter_def Para_characters_def ComputerOutput_enter_def
        ComputerOutput_leave_def own_text_def ProgramListing_leave_def Ref_enter_def Ref_leave_def
        Formula_leave_def err_bind_def Let_def
      simp del: add_content.simps insert_bracket.simps
      split: if_splits sum.splits option.splits list.splits prod.splits)

lemma enter_ok:
  "enter chain items = Inr (chain', items') \<Longrightarrow> items_ok items \<Longrightarrow> items_ok items'"
  unfolding enter_def Let_def
  by (auto split: if_splits
      dest: markup_items CompoundDef_enter_ok BaseCompoundRef_enter_ok DerivedCompoundRef_enter_ok
        MemberDef_enter_ok Location_enter_ok ReimplementedBy_enter_ok)

lemma leave_ok:
  "leave chain items = Inr (chain', items') \<Longrightarrow> items_ok items \<Longrightarrow> items_ok items'"
  unfolding leave_def Let_def
  by (auto split: if_splits
      dest: markup_items BriefDescription_leave_ok DetailedDescription_leave_ok)

lemma characters_ok:
  "characters chain content items = Inr (chain', items') \<Longrightarrow> items_ok items \<Longrightarrow> items_ok items'"
  unfolding characters_def Let_def
  by (auto split: if_splits
      dest: markup_items Name_characters_ok Definition_characters_ok CompountName_characters_ok)

lemma handle_event_ok:
  "handle_event e st = Inr st' \<Longrightarrow> items_ok (snd st) \<Longrightarrow> items_ok (snd st')"
proof (cases e)
  case (StartElement t attributes)
  then show "handle_event e st = Inr st' \<Longrightarrow> items_ok (snd st) \<Longrightarrow> items_ok (snd st')"
    by (cases st')
       (auto simp: startElement_def err_bind_def split: sum.splits dest: enter_ok)
next
  case (EndElement t)
  then show "handle_event e st = Inr st' \<Longrightarrow> items_ok (snd st) \<Longrightarrow> items_ok (snd st')"
    by (cases st')
       (auto simp: endElement_def err_bind_def split: sum.splits list.splits prod.splits dest: leave_ok)
next
  case (Characters content)
  then show "handle_event e st = Inr st' \<Longrightarrow> items_ok (snd st) \<Longrightarrow> items_ok (snd st')"
    by (cases st')
       (auto simp: handle_characters_def split: list.splits dest: characters_ok)
qed

lemma parse_events_ok:
  "parse_events es st = Inr st' \<Longrightarrow> items_ok (snd st) \<Longrightarrow> items_ok (snd st')"
proof (induction es arbitrary: st)
  case Nil
  then show ?case by simp
next
  case (Cons e es)
  from Cons.prems(1) obtain st1 where e: "handle_event e st = Inr st1"
    and es: "parse_events es st1 = Inr st'"
    by (auto simp: err_bind_def split: sum.splits)
  from e Cons.prems(2) have "items_ok (snd st1)" by (rule handle_event_ok)
  with es show ?case by (rule Cons.IH)
qed

text \<open>
  C4. After any sequence of Stage A handler operations on a fresh handler (every start,
  character and end event runs one), every item's \<^verbatim>\<open>derivedClasses\<close> and \<^verbatim>\<open>inheritedMembers\<close>, where
  present, are sorted by the normalized-id key and have no duplicate uid. The key of an
  identifier is the identifier without one leading \<^verbatim>\<open>class\<close>, \<^verbatim>\<open>struct\<close> or \<^verbatim>\<open>namespace\<close>, and the
  identifier itself when it has no such prefix.
\<close>

theorem relationship_lists_sorted_unique:
  assumes "parse es = Inr (stack, items)"
  shows "(\<forall>(uid, it) \<in> set items.
            \<forall>xs. it_derivedClasses it = Some xs \<or> it_inheritedMembers it = Some xs \<longrightarrow>
                 sorted (map id_sorting xs) \<and> distinct xs) \<and>
         (\<forall>s. id_sorting (''class'' @ s) = s \<and> id_sorting (''struct'' @ s) = s \<and>
              id_sorting (''namespace'' @ s) = s) \<and>
         (\<forall>s. \<not> startswith s ''class'' \<and> \<not> startswith s ''struct'' \<and> \<not> startswith s ''namespace'' \<longrightarrow>
              id_sorting s = s)"
proof (intro conjI)
  have "items_ok (snd ([] :: node list, [] :: items))" by (simp add: items_ok_def)
  with assms have "items_ok (snd (stack, items))"
    unfolding parse_def by (rule parse_events_ok)
  then show "\<forall>(uid, it) \<in> set items.
            \<forall>xs. it_derivedClasses it = Some xs \<or> it_inheritedMembers it = Some xs \<longrightarrow>
                 sorted (map id_sorting xs) \<and> distinct xs"
    by (auto simp: items_ok_def item_ok_def sorted_unique_def list_all_iff)
  show "\<forall>s. id_sorting (''class'' @ s) = s \<and> id_sorting (''struct'' @ s) = s \<and>
              id_sorting (''namespace'' @ s) = s"
    by (simp add: id_sorting_def startswith_def)
  show "\<forall>s. \<not> startswith s ''class'' \<and> \<not> startswith s ''struct'' \<and> \<not> startswith s ''namespace'' \<longrightarrow>
              id_sorting s = s"
    by (simp add: id_sorting_def)
qed

theorem relationship_lists_sorted_unique_witness:
  "\<exists>stack.
     parse [StartElement ''compounddef'' [(''id'', ''classA''), (''kind'', ''class'')],
             StartElement ''derivedcompoundref'' [(''refid'', ''structA'')], EndElement ''derivedcompoundref'',
             StartElement ''derivedcompoundref'' [(''refid'', ''classB'')], EndElement ''derivedcompoundref'',
             StartElement ''derivedcompoundref'' [(''refid'', ''structA'')], EndElement ''derivedcompoundref'',
             StartElement ''listofallmembers'' [],
             StartElement ''member'' [(''refid'', ''classZ_1a'')],
             StartElement ''name'' [], Characters ''g'', EndElement ''name'', EndElement ''member'',
             StartElement ''member'' [(''refid'', ''structA_1b'')],
             StartElement ''name'' [], Characters ''f'', EndElement ''name'', EndElement ''member'',
             StartElement ''member'' [(''refid'', ''classZ_1a'')],
             StartElement ''name'' [], Characters ''g'', EndElement ''name'', EndElement ''member'',
             EndElement ''listofallmembers'',
             EndElement ''compounddef'']
     = Inr (stack, [(''classA'', (new_item ''classA'' None ''class'')
                           \<lparr>it_inheritedMembers := Some [''structA_1b'', ''classZ_1a''],
                              it_derivedClasses := Some [''structA'', ''classB'']\<rparr>)]) \<and>
     map id_sorting [''structA'', ''classB''] = [''A'', ''B''] \<and>
     sorted (map id_sorting [''structA'', ''classB'']) \<and> distinct [''structA'', ''classB''] \<and>
     \<not> sorted [''structA'', ''classB''] \<and>
     map id_sorting [''structA_1b'', ''classZ_1a''] = [''A_1b'', ''Z_1a''] \<and>
     sorted (map id_sorting [''structA_1b'', ''classZ_1a'']) \<and> distinct [''structA_1b'', ''classZ_1a''] \<and>
     \<not> sorted [''structA_1b'', ''classZ_1a'']"
proof -
  let ?es = "[StartElement ''compounddef'' [(''id'', ''classA''), (''kind'', ''class'')],
             StartElement ''derivedcompoundref'' [(''refid'', ''structA'')], EndElement ''derivedcompoundref'',
             StartElement ''derivedcompoundref'' [(''refid'', ''classB'')], EndElement ''derivedcompoundref'',
             StartElement ''derivedcompoundref'' [(''refid'', ''structA'')], EndElement ''derivedcompoundref'',
             StartElement ''listofallmembers'' [],
             StartElement ''member'' [(''refid'', ''classZ_1a'')],
             StartElement ''name'' [], Characters ''g'', EndElement ''name'', EndElement ''member'',
             StartElement ''member'' [(''refid'', ''structA_1b'')],
             StartElement ''name'' [], Characters ''f'', EndElement ''name'', EndElement ''member'',
             StartElement ''member'' [(''refid'', ''classZ_1a'')],
             StartElement ''name'' [], Characters ''g'', EndElement ''name'', EndElement ''member'',
             EndElement ''listofallmembers'',
             EndElement ''compounddef'']"
  let ?items = "[(''classA'', (new_item ''classA'' None ''class'')
                           \<lparr>it_inheritedMembers := Some [''structA_1b'', ''classZ_1a''],
                              it_derivedClasses := Some [''structA'', ''classB'']\<rparr>)]"
  have "(case parse ?es of Inl e \<Rightarrow> False | Inr (stack, items) \<Rightarrow> items = ?items)"
    by code_simp
  then obtain stack where run: "parse ?es = Inr (stack, ?items)"
    by (auto split: sum.splits)
  note t = relationship_lists_sorted_unique[OF run]
  let ?it = "(new_item ''classA'' None ''class'')
                           \<lparr>it_inheritedMembers := Some [''structA_1b'', ''classZ_1a''],
                              it_derivedClasses := Some [''structA'', ''classB'']\<rparr>"
  have q: "\<forall>xs. it_derivedClasses ?it = Some xs \<or> it_inheritedMembers ?it = Some xs \<longrightarrow>
                 sorted (map id_sorting xs) \<and> distinct xs"
    using t[THEN conjunct1] by simp
  have l1: "sorted (map id_sorting [''structA'', ''classB'']) \<and> distinct [''structA'', ''classB'']"
    using q[rule_format, of "[''structA'', ''classB'']"] by simp
  have l2: "sorted (map id_sorting [''structA_1b'', ''classZ_1a'']) \<and> distinct [''structA_1b'', ''classZ_1a'']"
    using q[rule_format, of "[''structA_1b'', ''classZ_1a'']"] by simp
  have keys:
    "map id_sorting [''structA'', ''classB''] = [''A'', ''B''] \<and>
     map id_sorting [''structA_1b'', ''classZ_1a''] = [''A_1b'', ''Z_1a'']"
    using t[THEN conjunct2, THEN conjunct1, rule_format, of "''A''"]
      t[THEN conjunct2, THEN conjunct1, rule_format, of "''B''"]
      t[THEN conjunct2, THEN conjunct1, rule_format, of "''A_1b''"]
      t[THEN conjunct2, THEN conjunct1, rule_format, of "''Z_1a''"]
    by simp
  have raw: "\<not> sorted [''structA'', ''classB''] \<and> \<not> sorted [''structA_1b'', ''classZ_1a'']"
    by code_simp
  show ?thesis
    by (rule exI[of _ stack]) (intro conjI run l1[THEN conjunct1] l1[THEN conjunct2] l2[THEN conjunct1] l2[THEN conjunct2]
        keys[THEN conjunct1] keys[THEN conjunct2] raw[THEN conjunct1] raw[THEN conjunct2])
qed

section \<open>Path translation\<close>



lemma replace_char: "replace_lit [c] [d] s = map (\<lambda>x. if x = c then d else x) s"
  unfolding replace_lit_def by (induction s) (simp_all add: lit_def startswith_def)

lemma no_underscore: "CHR ''_'' \<notin> set (translate_path path)"
  by (auto simp: translate_path_def Let_def replace_char)





text \<open>
  The second path that \<^verbatim>\<open>convert\<close> compares the translated path with has underscores, and a
  translated path has none: that comparison never holds. The record of the
  \<^verbatim>\<open>std::optional\<close> specialisation of \<^verbatim>\<open>ValueSetter\<close> is written, at the path below.
\<close>

lemma second_literal_unreachable:
  "translate_path path \<noteq> ''api/ValueSetter/3_01std_optional_3_01T_01_4_01_4.yml''"
proof
  assume "translate_path path = ''api/ValueSetter/3_01std_optional_3_01T_01_4_01_4.yml''"
  then have "CHR ''_'' \<in> set (translate_path path)" by simp
  then show False using no_underscore by blast
qed

lemma value_setter_written:
  "translate_path ''doxygen/xml/structqiotoolkit_1_1ValueSetter_3_01std_1_1optional_3_01T_01_4_01_4.xml''
   = ''api/value-setter/3/01std/optional/3/01-t/01/4/01/4.yml'' \<and>
   (case convert ''doxygen/xml/structqiotoolkit_1_1ValueSetter_3_01std_1_1optional_3_01T_01_4_01_4.xml''
           [StartElement ''compounddef''
              [(''id'', ''structqiotoolkit_1_1ValueSetter_3_01std_1_1optional_3_01T_01_4_01_4''),
               (''kind'', ''struct'')],
            EndElement ''compounddef''] of
      Inl e \<Rightarrow> False
    | Inr files \<Rightarrow> map fst files = [''api/value-setter/3/01std/optional/3/01-t/01/4/01/4.yml''])"
  by code_simp

section \<open>The rewrite pass of Stage B\<close>

lemma set_add_set: "set (set_add referenced u) = insert u (set referenced)"
  by (auto simp: set_add_def)

lemma set_add_distinct: "distinct referenced \<Longrightarrow> distinct (set_add referenced u)"
  by (simp add: set_add_def)

lemma foldl_set_add_set: "set (foldl set_add referenced us) = set referenced \<union> set us"
  by (induction us arbitrary: referenced) (auto simp: set_add_set)

lemma foldl_set_add_distinct:
  "distinct referenced \<Longrightarrow> distinct (foldl set_add referenced us)"
  by (induction us arbitrary: referenced) (auto simp: set_add_distinct)

lemmas set_add_simps = set_add_set set_add_distinct foldl_set_add_set foldl_set_add_distinct

lemma rewrite_item_closed:
  "rewrite_item xrefmap it referenced =
     (pruned_item xrefmap it, foldl set_add referenced (declared_uids (pruned_item xrefmap it)))"
  by (cases "it_parent it"; cases "it_children it"; cases "it_inheritedMembers it")
     (simp_all add: set_add_simps rewrite_item_def pruned_item_def declared_uids_def Let_def)

lemma rewrite_items_closed:
  "rewrite_items xrefmap its referenced =
     (map (pruned_item xrefmap) its,
      foldl set_add referenced (concat (map (\<lambda>it. declared_uids (pruned_item xrefmap it)) its)))"
  by (induction its arbitrary: referenced) (simp_all add: set_add_simps rewrite_item_closed)

lemma declared_pruned_present:
  "u \<in> set (declared_uids (pruned_item xrefmap it)) \<Longrightarrow> xrefmap u \<noteq> None"
  by (auto simp: set_add_simps declared_uids_def pruned_item_def split: option.splits if_splits)

lemma pruned_item_idem: "pruned_item xrefmap (pruned_item xrefmap it) = pruned_item xrefmap it"
  by (cases "it_parent it"; cases "it_children it"; cases "it_inheritedMembers it")
     (simp_all add: set_add_simps pruned_item_def)

lemma map_filter_present:
  "(\<forall>u \<in> set us. f u \<noteq> None) \<Longrightarrow> List.map_filter f us = map (\<lambda>u. the (f u)) us"
  by (induction us) (auto simp: set_add_simps List.map_filter_simps)

lemma rewrite_record_closed:
  "rewrite_record xrefmap its =
     Record (map (pruned_item xrefmap) its)
       (Some (List.map_filter xrefmap
                (foldl set_add [] (concat (map (\<lambda>it. declared_uids (pruned_item xrefmap it)) its)))))"
  by (simp add: set_add_simps rewrite_record_def rewrite_items_closed)

lemma rewrite_record_idem:
  "rewrite_record xrefmap (map (pruned_item xrefmap) its) = rewrite_record xrefmap its"
  by (simp add: set_add_simps pruned_item_idem rewrite_record_closed comp_def)

lemma load_items_upd_other: "p \<noteq> q \<Longrightarrow> load_items (fs(q \<mapsto> d)) p = load_items fs p"
  by (simp add: set_add_simps load_items_def)

lemma load_items_rewritten:
  "load_items (fs(p \<mapsto> rewrite_record xrefmap its)) p = Inr (map (pruned_item xrefmap) its)"
  by (simp add: set_add_simps load_items_def rewrite_record_closed)

lemma rewrite_processed:
  "rewrite xrefmap paths fs = Inr fs' \<Longrightarrow> p \<in> set paths \<Longrightarrow> \<not> is_toc p \<Longrightarrow>
   \<exists>its. load_items fs p = Inr its \<and> fs' p = Some (rewrite_record xrefmap its)"
and rewrite_untouched:
  "rewrite xrefmap paths fs = Inr fs' \<Longrightarrow> p \<notin> set paths \<or> is_toc p \<Longrightarrow> fs' p = fs p"
proof (induction paths arbitrary: fs)
  case Nil
  { case 1 then show ?case by (simp add: set_add_simps set_add_simps) }
  { case 2 then show ?case by (simp add: set_add_simps set_add_simps) }
next
  case (Cons q paths)
  {
    case 1
    show ?case
    proof (cases "is_toc q")
      case True
      with 1 Cons.IH(1)[of fs] show ?thesis by (auto simp: set_add_simps)
    next
      case False
      with 1(1) obtain its where l: "load_items fs q = Inr its"
        and r: "rewrite xrefmap paths (fs(q \<mapsto> rewrite_record xrefmap its)) = Inr fs'"
        by (auto simp: set_add_simps err_bind_def split: sum.splits)
      show ?thesis
      proof (cases "p \<in> set paths")
        case True
        from Cons.IH(1)[OF r True 1(3)] obtain its' where
          l': "load_items (fs(q \<mapsto> rewrite_record xrefmap its)) p = Inr its'"
          and f: "fs' p = Some (rewrite_record xrefmap its')" by blast
        show ?thesis
        proof (cases "p = q")
          case True
          with l' have "its' = map (pruned_item xrefmap) its" by (simp add: set_add_simps load_items_rewritten)
          with f l True show ?thesis by (simp add: set_add_simps rewrite_record_idem)
        next
          case False
          with l' f show ?thesis by (simp add: set_add_simps load_items_upd_other)
        qed
      next
        case False
        with 1(2) have pq: "p = q" by (simp add: set_add_simps set_add_simps)
        from Cons.IH(2)[OF r] False have "fs' p = (fs(q \<mapsto> rewrite_record xrefmap its)) p" by blast
        with pq l show ?thesis by (simp add: set_add_simps set_add_simps)
      qed
    qed
  }
  {
    case 2
    show ?case
    proof (cases "is_toc q")
      case True
      with 2 Cons.IH(2)[of fs] show ?thesis by (auto simp: set_add_simps)
    next
      case False
      with 2(1) obtain its where l: "load_items fs q = Inr its"
        and r: "rewrite xrefmap paths (fs(q \<mapsto> rewrite_record xrefmap its)) = Inr fs'"
        by (auto simp: set_add_simps err_bind_def split: sum.splits)
      from 2(2) False have "p \<notin> set paths \<or> is_toc p" and "p \<noteq> q \<or> is_toc p" by (auto simp: set_add_simps)
      then have "fs' p = (fs(q \<mapsto> rewrite_record xrefmap its)) p" and "p \<noteq> q"
        using Cons.IH(2)[OF r] False by (auto simp: set_add_simps)
      then show ?thesis by (simp add: set_add_simps set_add_simps)
    qed
  }
qed


lemma generate_xrefmap_rewrite:
  assumes "generate_xrefmap paths fs = Inr fs'"
  obtains xreflist xrefmap where "collect fs paths ([], Map.empty) = Inr (xreflist, xrefmap)"
    and "rewrite xrefmap paths (fs(''xrefmap.yml'' \<mapsto> RefMap xreflist)) = Inr fs'"
  using assms by (auto simp: generate_xrefmap_def err_bind_def split: sum.splits)

lemma load_items_refmap: "load_items (fs(p \<mapsto> RefMap l)) q = Inr its \<Longrightarrow> q \<noteq> p \<and> load_items fs q = Inr its"
  by (cases "q = p") (simp_all add: load_items_def)

lemma generate_processed:
  assumes "generate_xrefmap paths fs = Inr fs'"
    and "collect fs paths ([], Map.empty) = Inr (xreflist, xrefmap)"
    and "path \<in> set paths" and "\<not> is_toc path"
  shows "\<exists>its. load_items fs path = Inr its \<and> fs' path = Some (rewrite_record xrefmap its)"
proof -
  from assms(1,2) have "rewrite xrefmap paths (fs(''xrefmap.yml'' \<mapsto> RefMap xreflist)) = Inr fs'"
    by (simp add: generate_xrefmap_def err_bind_def)
  from rewrite_processed[OF this assms(3,4)] obtain its where
    "load_items (fs(''xrefmap.yml'' \<mapsto> RefMap xreflist)) path = Inr its"
    and f: "fs' path = Some (rewrite_record xrefmap its)" by blast
  then have "load_items fs path = Inr its" by (blast dest: load_items_refmap)
  with f show ?thesis by blast
qed

text \<open>
  C2. Let \<^verbatim>\<open>generate_xrefmap\<close> succeed, with the global reference map that its first loop
  collects. Every record that the rewrite pass processes (a path of the run that is not a
  table of contents) is rewritten to its items pruned as the specification says (a \<^verbatim>\<open>parent\<close>
  absent from the map deleted, \<^verbatim>\<open>children\<close> and \<^verbatim>\<open>inheritedMembers\<close> filtered to the uids in the
  map) together with a \<^verbatim>\<open>references\<close> list that holds the global reference of each marked uid
  exactly once and nothing else; the marked uids are the ones the pruned items still
  declare as \<^verbatim>\<open>parent\<close>, \<^verbatim>\<open>children\<close> or \<^verbatim>\<open>inheritedMembers\<close>, all present in the map.
\<close>

theorem rewrite_pass_prunes:
  assumes "generate_xrefmap paths fs = Inr fs'"
    and "collect fs paths ([], Map.empty) = Inr (xreflist, xrefmap)"
    and "path \<in> set paths" and "\<not> is_toc path"
  shows "\<exists>its referenced.
           load_items fs path = Inr its \<and>
           fs' path = Some (Record (map (pruned_item xrefmap) its)
                                   (Some (map (\<lambda>u. the (xrefmap u)) referenced))) \<and>
           distinct referenced \<and>
           list_all (\<lambda>u. xrefmap u \<noteq> None) referenced \<and>
           set referenced = (\<Union>it \<in> set its. set (declared_uids (pruned_item xrefmap it)))"
proof -
  from generate_processed[OF assms] obtain its where l: "load_items fs path = Inr its"
    and f: "fs' path = Some (rewrite_record xrefmap its)" by blast
  let ?referenced = "foldl set_add [] (concat (map (\<lambda>it. declared_uids (pruned_item xrefmap it)) its))"
  have present: "\<forall>u \<in> set ?referenced. xrefmap u \<noteq> None"
    by (auto simp: set_add_simps dest: declared_pruned_present)
  then have "List.map_filter xrefmap ?referenced = map (\<lambda>u. the (xrefmap u)) ?referenced"
    by (rule map_filter_present)
  with f have "fs' path = Some (Record (map (pruned_item xrefmap) its)
                                   (Some (map (\<lambda>u. the (xrefmap u)) ?referenced)))"
    by (simp add: rewrite_record_closed)
  moreover have "distinct ?referenced" by (simp add: set_add_simps)
  moreover have "list_all (\<lambda>u. xrefmap u \<noteq> None) ?referenced"
    using present by (simp add: list_all_iff)
  moreover have "set ?referenced = (\<Union>it \<in> set its. set (declared_uids (pruned_item xrefmap it)))"
    by (simp add: set_add_simps)
  ultimately show ?thesis using l by blast
qed

lemma pruned_item_frame:
  "pruned_item xrefmap it =
     it\<lparr>it_parent := it_parent (pruned_item xrefmap it),
        it_children := it_children (pruned_item xrefmap it),
        it_inheritedMembers := it_inheritedMembers (pruned_item xrefmap it)\<rparr>"
  by (simp add: pruned_item_def)

text \<open>
  C3. Stage B leaves \<^verbatim>\<open>inheritance\<close> alone: after a successful run, every record of the file
  system (other than the reference map's own file) is still a record, with the same number
  of items, each item with the \<^verbatim>\<open>inheritance\<close> it had before, whether or not its uids are in
  the global map; an item differs from the one before at most in \<^verbatim>\<open>parent\<close>, \<^verbatim>\<open>children\<close> and
  \<^verbatim>\<open>inheritedMembers\<close>.
\<close>

theorem inheritance_never_pruned:
  assumes "generate_xrefmap paths fs = Inr fs'"
    and "fs path = Some (Record its refs)" and "path \<noteq> ''xrefmap.yml''"
  shows "\<exists>its' refs'.
           fs' path = Some (Record its' refs') \<and>
           map it_inheritance its' = map it_inheritance its \<and>
           list_all2 (\<lambda>it it'. it' = it\<lparr>it_parent := it_parent it', it_children := it_children it',
                                        it_inheritedMembers := it_inheritedMembers it'\<rparr>) its its'"
proof -
  from assms(1) obtain xreflist xrefmap where
    r: "rewrite xrefmap paths (fs(''xrefmap.yml'' \<mapsto> RefMap xreflist)) = Inr fs'"
    by (rule generate_xrefmap_rewrite)
  let ?fs = "fs(''xrefmap.yml'' \<mapsto> RefMap xreflist)"
  from assms(2,3) have l: "load_items ?fs path = Inr its" by (simp add: load_items_def)
  show ?thesis
  proof (cases "path \<in> set paths \<and> \<not> is_toc path")
    case True
    with rewrite_processed[OF r] l have "fs' path = Some (rewrite_record xrefmap its)" by fastforce
    then have "fs' path = Some (Record (map (pruned_item xrefmap) its)
        (Some (List.map_filter xrefmap
                (foldl set_add [] (concat (map (\<lambda>it. declared_uids (pruned_item xrefmap it)) its))))))"
      by (simp add: rewrite_record_closed)
    moreover have "map it_inheritance (map (pruned_item xrefmap) its) = map it_inheritance its"
      by (simp add: pruned_item_def)
    moreover have "list_all2 (\<lambda>it it'. it' = it\<lparr>it_parent := it_parent it', it_children := it_children it',
                                        it_inheritedMembers := it_inheritedMembers it'\<rparr>)
                     its (map (pruned_item xrefmap) its)"
      using pruned_item_frame by (simp add: list_all2_map2 list_all2_same)
    ultimately show ?thesis by blast
  next
    case False
    then have "fs' path = ?fs path" using rewrite_untouched[OF r] by blast
    with assms(2,3) have "fs' path = Some (Record its refs)" by simp
    moreover have "list_all2 (\<lambda>it it'. it' = it\<lparr>it_parent := it_parent it', it_children := it_children it',
                                        it_inheritedMembers := it_inheritedMembers it'\<rparr>) its its"
      by (simp add: list_all2_same)
    ultimately show ?thesis by blast
  qed
qed


theorem rewrite_pass_prunes_witness:
  "(case generate_xrefmap [''api/a.yml'', ''toc.yml'', ''api/x.yml'']
           [''api/a.yml'' \<mapsto> Record [(new_item ''classA'' None ''class'')\<lparr>it_name := Some ''A'', it_fullName := Some ''A'', it_children := Some [''m1'', ''gone''], it_inheritance := Some [''classBase'']\<rparr>,
                                   (new_item ''m1'' (Some ''classA'') ''method'')\<lparr>it_name := Some ''f'', it_fullName := Some ''A::f''\<rparr>] None,
         ''api/x.yml'' \<mapsto> Record [(new_item ''classX'' (Some ''nope'') ''class'')\<lparr>it_name := Some ''X'', it_fullName := Some ''X''\<rparr>] None] of
      Inl e \<Rightarrow> False
    | Inr fs' \<Rightarrow>
        (case fs' ''api/a.yml'' of
           Some (Record its (Some refs)) \<Rightarrow>
             its = [(new_item ''classA'' None ''class'')\<lparr>it_name := Some ''A'', it_fullName := Some ''A'', it_children := Some [''m1''], it_inheritance := Some [''classBase'']\<rparr>,
                    (new_item ''m1'' (Some ''classA'') ''method'')\<lparr>it_name := Some ''f'', it_fullName := Some ''A::f''\<rparr>] \<and>
             set refs = {\<lparr>ref_uid = ''classA'', ref_name = ''A'', ref_href = ''/api/a.html'', ref_fullName = ''A''\<rparr>,
                         \<lparr>ref_uid = ''m1'', ref_name = ''f'', ref_href = ''/api/a.html'', ref_fullName = ''A::f''\<rparr>} \<and>
             length refs = 2
         | _ \<Rightarrow> False) \<and>
        fs' ''api/x.yml'' = Some (Record [(new_item ''classX'' None ''class'')\<lparr>it_name := Some ''X'', it_fullName := Some ''X''\<rparr>] (Some []))) \<and>
   (\<exists>fs' xrefmap its referenced.
      generate_xrefmap [''api/a.yml'', ''toc.yml'', ''api/x.yml'']
        [''api/a.yml'' \<mapsto> Record [(new_item ''classA'' None ''class'')\<lparr>it_name := Some ''A'', it_fullName := Some ''A'', it_children := Some [''m1'', ''gone''], it_inheritance := Some [''classBase'']\<rparr>,
                                   (new_item ''m1'' (Some ''classA'') ''method'')\<lparr>it_name := Some ''f'', it_fullName := Some ''A::f''\<rparr>] None,
         ''api/x.yml'' \<mapsto> Record [(new_item ''classX'' (Some ''nope'') ''class'')\<lparr>it_name := Some ''X'', it_fullName := Some ''X''\<rparr>] None] = Inr fs' \<and>
      fs' ''api/a.yml'' = Some (Record (map (pruned_item xrefmap) its)
                                      (Some (map (\<lambda>u. the (xrefmap u)) referenced))) \<and>
      distinct referenced \<and>
      set referenced = (\<Union>it \<in> set its. set (declared_uids (pruned_item xrefmap it))))"
proof -
  let ?fs = "[''api/a.yml'' \<mapsto> Record [(new_item ''classA'' None ''class'')\<lparr>it_name := Some ''A'', it_fullName := Some ''A'', it_children := Some [''m1'', ''gone''], it_inheritance := Some [''classBase'']\<rparr>,
                                   (new_item ''m1'' (Some ''classA'') ''method'')\<lparr>it_name := Some ''f'', it_fullName := Some ''A::f''\<rparr>] None,
         ''api/x.yml'' \<mapsto> Record [(new_item ''classX'' (Some ''nope'') ''class'')\<lparr>it_name := Some ''X'', it_fullName := Some ''X''\<rparr>] None]"
  let ?paths = "[''api/a.yml'', ''toc.yml'', ''api/x.yml'']"
  have run: "(case generate_xrefmap ?paths ?fs of
      Inl e \<Rightarrow> False
    | Inr fs' \<Rightarrow>
        (case fs' ''api/a.yml'' of
           Some (Record its (Some refs)) \<Rightarrow>
             its = [(new_item ''classA'' None ''class'')\<lparr>it_name := Some ''A'', it_fullName := Some ''A'', it_children := Some [''m1''], it_inheritance := Some [''classBase'']\<rparr>,
                    (new_item ''m1'' (Some ''classA'') ''method'')\<lparr>it_name := Some ''f'', it_fullName := Some ''A::f''\<rparr>] \<and>
             set refs = {\<lparr>ref_uid = ''classA'', ref_name = ''A'', ref_href = ''/api/a.html'', ref_fullName = ''A''\<rparr>,
                         \<lparr>ref_uid = ''m1'', ref_name = ''f'', ref_href = ''/api/a.html'', ref_fullName = ''A::f''\<rparr>} \<and>
             length refs = 2
         | _ \<Rightarrow> False) \<and>
        fs' ''api/x.yml'' = Some (Record [(new_item ''classX'' None ''class'')\<lparr>it_name := Some ''X'', it_fullName := Some ''X''\<rparr>] (Some [])))"
    by code_simp
  then obtain fs' where g: "generate_xrefmap ?paths ?fs = Inr fs'"
    by (cases "generate_xrefmap ?paths ?fs") auto
  then obtain xreflist xrefmap where c: "collect ?fs ?paths ([], Map.empty) = Inr (xreflist, xrefmap)"
    by (rule generate_xrefmap_rewrite)
  have p: "''api/a.yml'' \<in> set ?paths" by simp
  have t: "\<not> is_toc ''api/a.yml''" by code_simp
  from rewrite_pass_prunes[OF g c p t] g run show ?thesis by blast
qed

theorem inheritance_never_pruned_witness:
  "\<exists>fs' its' refs'.
     generate_xrefmap [''api/a.yml'', ''toc.yml'', ''api/x.yml'']
       [''api/a.yml'' \<mapsto> Record [(new_item ''classA'' None ''class'')\<lparr>it_name := Some ''A'', it_fullName := Some ''A'', it_children := Some [''m1'', ''gone''], it_inheritance := Some [''classBase'']\<rparr>,
                                   (new_item ''m1'' (Some ''classA'') ''method'')\<lparr>it_name := Some ''f'', it_fullName := Some ''A::f''\<rparr>] None,
         ''api/x.yml'' \<mapsto> Record [(new_item ''classX'' (Some ''nope'') ''class'')\<lparr>it_name := Some ''X'', it_fullName := Some ''X''\<rparr>] None] = Inr fs' \<and>
     fs' ''api/a.yml'' = Some (Record its' refs') \<and>
     map it_inheritance its' = [Some [''classBase''], None]"
proof -
  let ?fs = "[''api/a.yml'' \<mapsto> Record [(new_item ''classA'' None ''class'')\<lparr>it_name := Some ''A'', it_fullName := Some ''A'', it_children := Some [''m1'', ''gone''], it_inheritance := Some [''classBase'']\<rparr>,
                                   (new_item ''m1'' (Some ''classA'') ''method'')\<lparr>it_name := Some ''f'', it_fullName := Some ''A::f''\<rparr>] None,
         ''api/x.yml'' \<mapsto> Record [(new_item ''classX'' (Some ''nope'') ''class'')\<lparr>it_name := Some ''X'', it_fullName := Some ''X''\<rparr>] None]"
  let ?paths = "[''api/a.yml'', ''toc.yml'', ''api/x.yml'']"
  have "(case generate_xrefmap ?paths ?fs of Inl e \<Rightarrow> False | Inr fs' \<Rightarrow> True)"
    by code_simp
  then obtain fs' where g: "generate_xrefmap ?paths ?fs = Inr fs'"
    by (cases "generate_xrefmap ?paths ?fs") auto
  have f: "?fs ''api/a.yml'' = Some (Record [(new_item ''classA'' None ''class'')\<lparr>it_name := Some ''A'', it_fullName := Some ''A'', it_children := Some [''m1'', ''gone''], it_inheritance := Some [''classBase'']\<rparr>,
                                           (new_item ''m1'' (Some ''classA'') ''method'')\<lparr>it_name := Some ''f'', it_fullName := Some ''A::f''\<rparr>] None)"
    by simp
  have n: "''api/a.yml'' \<noteq> ''xrefmap.yml''" by simp
  from inheritance_never_pruned[OF g f n] g show ?thesis
    by (auto simp: new_item_def)
qed

end
